theory Spec2Isabelle
  imports Main "HOL-Library.Word"
begin

unbundle bit_operations_syntax

section \<open>Machine integers of the driver\<close>

text \<open>
  The driver (drivers/media/i2c/rk628/rk628_hdmirx.c) computes on C's \<open>u32\<close>, \<open>int\<close>
  and \<open>u64\<close>.  Both 32-bit types are 32-bit words here: a conversion between \<open>u32\<close> and
  \<open>int\<close> keeps the bits, arithmetic wraps around (the kernel is built with wrapping signed
  arithmetic), and a signed comparison reads its operands through \<open>sint\<close>.
\<close>

type_synonym u32 = "32 word"
type_synonym s32 = "32 word"
type_synonym u64 = "64 word"

text \<open>Modelled from the spec: the kernel's \<open>abs()\<close> macro (include/linux/kernel.h is not
  among the sources), which the spec reads as the distance in "within 2000 Hz" and
  "\<open>|fs - sampleRateHz| > 1000\<close>".  On a 32-bit operand the macro reads the operand as
  an \<open>int\<close> and negates it when negative, in 32 bits.\<close>

definition abs_int :: "s32 \<Rightarrow> s32" where
  "abs_int x = (if sint x < 0 then - x else x)"

text \<open>Modelled from the spec: the kernel's \<open>div_u64(dividend, divisor)\<close>
  (include/linux/math64.h is not among the sources), the quotient of the spec's
  "\<open>(tmdsClockHz * n) / cts\<close> using 64-bit intermediate arithmetic": a 64-bit dividend
  by a 32-bit divisor.\<close>

definition div_u64 :: "u64 \<Rightarrow> u32 \<Rightarrow> u64" where
  "div_u64 dividend divisor = dividend div ucast divisor"

section \<open>The supported sample rates\<close>

definition INIT_FIFO_STATE :: s32 where
  "INIT_FIFO_STATE = 64"

text \<open>\<open>static int supported_fs[]\<close>, with its terminator \<open>-1\<close>.\<close>

definition supported_fs :: "s32 list" where
  "supported_fs = [32000, 44100, 48000, 88200, 96000, 176400, 192000, 768000, - 1]"

text \<open>
  The loop of \<open>is_validfs\<close>: \<open>fs_t\<close> is the entry read last, \<open>rest\<close> the entries after it.
  The loop ends at the first entry that is not positive; the table ends with one, so the
  clause for an exhausted table is never reached from \<open>supported_fs\<close>.
\<close>

fun is_validfs_loop :: "s32 \<Rightarrow> s32 list \<Rightarrow> s32 \<Rightarrow> bool" where
  "is_validfs_loop fs_t [] fs = (0 < sint fs_t \<and> fs = fs_t)"
| "is_validfs_loop fs_t (t # rest) fs =
     (if 0 < sint fs_t then
        (if fs = fs_t then True else is_validfs_loop t rest fs)
      else False)"

definition is_validfs :: "s32 \<Rightarrow> bool" where
  "is_validfs fs = is_validfs_loop (hd supported_fs) (tl supported_fs) fs"

text \<open>
  The loop of \<open>rk628_hdmirx_audio_find_closest_fs\<close>: the first positive entry with
  \<open>abs(fs - fs_t) <= 2000\<close> is returned; when the loop ends without one, the function
  returns \<open>fs_t\<close>, the entry that ended the loop.
\<close>

fun find_closest_fs_loop :: "s32 \<Rightarrow> s32 list \<Rightarrow> s32 \<Rightarrow> s32" where
  "find_closest_fs_loop fs_t [] fs = fs_t"
| "find_closest_fs_loop fs_t (t # rest) fs =
     (if 0 < sint fs_t then
        (if sint (abs_int (fs - fs_t)) \<le> 2000 then fs_t
         else find_closest_fs_loop t rest fs)
      else fs_t)"

definition rk628_hdmirx_audio_find_closest_fs :: "s32 \<Rightarrow> s32" where
  "rk628_hdmirx_audio_find_closest_fs fs =
     find_closest_fs_loop (hd supported_fs) (tl supported_fs) fs"

section \<open>The chip as the driver sees it\<close>

text \<open>
  The registers the audio code reads and writes.  A read returns what the chip holds at that
  moment, which the driver does not control: every operation below takes a function \<open>rd\<close>
  giving the value each register returns to the read made during that operation (no
  operation reads a register twice).
\<close>

datatype reg =
    HDMI_RX_HDMI_CKM_RESULT | HDMI_RX_PDEC_ACR_CTS | HDMI_RX_PDEC_ACR_N
  | HDMI_RX_AUD_FIFO_ICLR | HDMI_RX_AUD_FIFO_CTRL | HDMI_RX_AUD_FIFO_TH
  | HDMI_RX_AUD_FIFO_ISTS | HDMI_RX_AUD_FIFO_IEN_SET | HDMI_RX_AUD_FIFO_FILLSTS1
  | HDMI_RX_DMI_DISABLE_IF | HDMI_RX_AUD_SPARE | GRF_SYSTEM_CON0
  | HDMI_RX_PDEC_IEN_CLR | HDMI_RX_PDEC_IEN_SET | HDMI_RX_PDEC_ICLR
  | CRU_MODE_CON00 | HDMI_RX_AUDPLL_GEN_CTS | HDMI_RX_AUDPLL_GEN_N
  | HDMI_RX_AUD_CLK_CTRL | HDMI_RX_AUD_PLL_CTRL | HDMI_RX_AUD_SAO_CTRL
  | HDMI_RX_AUD_MUTE_CTRL | HDMI_RX_AUD_PAO_CTRL | HDMI_RX_AUD_CHEXTR_CTRL
  | HDMI_RX_PDEC_AUDIODET_CTRL

type_synonym i2c_regs = "reg \<Rightarrow> u32"

text \<open>
  The bit-field macros of rk628_hdmirx.h (the header is not part of the sources at hand)
  stay symbolic: a value built from them is the list of the fields it sets.
\<close>

datatype field =
    AFIF_TH_START | AFIF_TH_MAX | AFIF_TH_MIN | AUD_ENABLE | SW_I2S_DATA_OEN
  | CTS_N_REF | PLL_LOCK_TOGGLE_DIV | AFIF_SUBPACKET_DESEL | AFIF_SUBPACKETS
  | I2S_LPCM_BPCUV | I2S_32_16 | I2S_ENABLE_BITS | APPLY_INT_MUTE | APORT_SHDW_CTRL
  | AUTO_ACLK_MUTE | AUD_MUTE_SPEED | AUD_AVMUTE_EN | AUD_MUTE_SEL | AUD_MUTE_MODE
  | PAO_RATE | AUD_LAYOUT_CTRL | AUDIODET_THRESHOLD

datatype regval =
    Val u32
  | Bits "(field \<times> nat) list"
  | HIWORD_UPDATE nat nat nat

text \<open>What the driver does to the outside: bus writes, settings of the audio clock
  \<open>CGU_CLK_HDMIRX_AUD\<close>, and calls of \<open>schedule_delayed_work\<close> for its two delayed
  works (delay in ms).  The calls are recorded; that the kernel ignores one made while the
  work is still pending is not shown.  The diagnostic messages are left out.\<close>

datatype hw_op =
    I2c_write reg regval
  | I2c_update_bits reg "field list" "(field \<times> nat) list"
  | Clk_set_rate u32
  | Schedule_audio nat
  | Schedule_rate_change nat

text \<open>
  The interrupt-status bits whose values rk628_hdmirx.h defines.  They are parameters of the
  model; the theorems say what they need of them.
\<close>

record hdmirx_h =
  ACR_N_CHG_ICLR :: u32
  ACR_CTS_CHG_ICLR :: u32
  AFIF_OVERFL_ISTS :: u32
  AFIF_UNDERFL_ISTS :: u32
  AUDS_MAS_SAMPLE_FLAT :: u32

section \<open>The audio state\<close>

record rk628_audiostate =
  hdmirx_aud_clkrate :: u32
  fs_audio :: u32
  ctsn_flag :: u32
  fifo_flag :: u32
  init_state :: s32
  pre_state :: s32
  fifo_int :: bool
  audio_enable :: bool

text \<open>
  \<open>struct rk628_audioinfo\<close>.  \<open>rk628f\<close> stands for \<open>rk628->version >= RK628F_VERSION\<close>,
  and \<open>hw_ops\<close> records, oldest first, what has been done to the chip, the clock and the
  two delayed works through this handle.  The mutex, the device pointers and the debug
  level carry no data of the algorithm.
\<close>

record rk628_audioinfo =
  audio_state :: rk628_audiostate
  i2s_enabled_default :: bool
  i2s_enabled :: bool
  fifo_ints_en :: bool
  ctsn_ints_en :: bool
  audio_present :: bool
  rk628f :: bool
  hw_ops :: "hw_op list"

definition rk628_i2c_write :: "reg \<Rightarrow> regval \<Rightarrow> rk628_audioinfo \<Rightarrow> rk628_audioinfo" where
  "rk628_i2c_write r v aif = aif\<lparr>hw_ops := hw_ops aif @ [I2c_write r v]\<rparr>"

definition rk628_i2c_update_bits ::
  "reg \<Rightarrow> field list \<Rightarrow> (field \<times> nat) list \<Rightarrow> rk628_audioinfo \<Rightarrow> rk628_audioinfo" where
  "rk628_i2c_update_bits r msk v aif =
     aif\<lparr>hw_ops := hw_ops aif @ [I2c_update_bits r msk v]\<rparr>"

definition rk628_clk_set_rate :: "u32 \<Rightarrow> rk628_audioinfo \<Rightarrow> rk628_audioinfo" where
  "rk628_clk_set_rate rate aif = aif\<lparr>hw_ops := hw_ops aif @ [Clk_set_rate rate]\<rparr>"

definition schedule_delayed_work_audio :: "nat \<Rightarrow> rk628_audioinfo \<Rightarrow> rk628_audioinfo" where
  "schedule_delayed_work_audio ms aif = aif\<lparr>hw_ops := hw_ops aif @ [Schedule_audio ms]\<rparr>"

definition schedule_delayed_work_audio_rate_change ::
  "nat \<Rightarrow> rk628_audioinfo \<Rightarrow> rk628_audioinfo" where
  "schedule_delayed_work_audio_rate_change ms aif =
     aif\<lparr>hw_ops := hw_ops aif @ [Schedule_rate_change ms]\<rparr>"

section \<open>FIFO controller\<close>

definition rk628_hdmirx_audio_fifo_init :: "rk628_audioinfo \<Rightarrow> rk628_audioinfo" where
  "rk628_hdmirx_audio_fifo_init aif =
     (let aif = rk628_i2c_write HDMI_RX_AUD_FIFO_ICLR (Val 0x1f) aif;
          aif = rk628_i2c_write HDMI_RX_AUD_FIFO_CTRL (Val 0x10001) aif;
          aif = rk628_i2c_write HDMI_RX_AUD_FIFO_CTRL (Val 0x10000) aif
      in aif\<lparr>audio_state := (audio_state aif)
           \<lparr>init_state := INIT_FIFO_STATE * 4, pre_state := INIT_FIFO_STATE * 4\<rparr>\<rparr>)"

definition rk628_hdmirx_audio_fifo_initd :: "rk628_audioinfo \<Rightarrow> rk628_audioinfo" where
  "rk628_hdmirx_audio_fifo_initd aif =
     (let aif = rk628_i2c_write HDMI_RX_AUD_FIFO_ICLR (Val 0x1f) aif;
          aif = rk628_i2c_update_bits HDMI_RX_AUD_FIFO_TH [AFIF_TH_START]
                  [(AFIF_TH_START, 192)] aif;
          aif = rk628_i2c_write HDMI_RX_AUD_FIFO_CTRL (Val 0x10001) aif;
          aif = rk628_i2c_write HDMI_RX_AUD_FIFO_CTRL (Val 0x10000) aif;
          aif = rk628_i2c_write HDMI_RX_AUD_FIFO_CTRL (Val 0x10001) aif;
          aif = rk628_i2c_write HDMI_RX_AUD_FIFO_CTRL (Val 0x10000) aif;
          aif = rk628_i2c_update_bits HDMI_RX_AUD_FIFO_TH [AFIF_TH_START]
                  [(AFIF_TH_START, unat INIT_FIFO_STATE)] aif
      in aif\<lparr>audio_state := (audio_state aif)
           \<lparr>init_state := INIT_FIFO_STATE * 4, pre_state := INIT_FIFO_STATE * 4\<rparr>\<rparr>)"

section \<open>Sample-rate estimator\<close>

text \<open>\<open>tmdsclk = clkrate * (49500000 / 1000)\<close>: a product of 32-bit operands, widened to
  64 bits afterwards.\<close>

definition tmdsclk_of :: "u32 \<Rightarrow> u64" where
  "tmdsclk_of clkrate = ucast (clkrate * (49500000 div 1000))"

text \<open>\<open>_rk628_hdmirx_audio_fs\<close> (a name cannot begin with an underscore here).\<close>

definition underscore_rk628_hdmirx_audio_fs :: "i2c_regs \<Rightarrow> u32" where
  "underscore_rk628_hdmirx_audio_fs rd =
     (let clkrate = rd HDMI_RX_HDMI_CKM_RESULT AND 0xffff;
          tmdsclk = tmdsclk_of clkrate;
          cts_decoded = rd HDMI_RX_PDEC_ACR_CTS;
          n_decoded = rd HDMI_RX_PDEC_ACR_N;
          fs = (if cts_decoded \<noteq> 0 then
                  rk628_hdmirx_audio_find_closest_fs
                    ((ucast (div_u64 (tmdsclk * ucast n_decoded) cts_decoded) :: u32) div 128)
                else 0)
      in if \<not> is_validfs fs then 0 else fs)"

section \<open>Clock setting\<close>

definition rk628_hdmirx_audio_clk_set_rate :: "u32 \<Rightarrow> rk628_audioinfo \<Rightarrow> rk628_audioinfo" where
  "rk628_hdmirx_audio_clk_set_rate rate aif =
     (let aif = rk628_clk_set_rate rate aif
      in aif\<lparr>audio_state := (audio_state aif)\<lparr>hdmirx_aud_clkrate := rate\<rparr>\<rparr>)"

definition rk628_hdmirx_audio_clk_inc_rate :: "s32 \<Rightarrow> rk628_audioinfo \<Rightarrow> rk628_audioinfo" where
  "rk628_hdmirx_audio_clk_inc_rate dis aif =
     (let rate = hdmirx_aud_clkrate (audio_state aif) + dis;
          aif = rk628_clk_set_rate rate aif
      in aif\<lparr>audio_state := (audio_state aif)\<lparr>hdmirx_aud_clkrate := rate\<rparr>\<rparr>)"

definition rk628_hdmirx_audio_set_fs :: "u32 \<Rightarrow> rk628_audioinfo \<Rightarrow> rk628_audioinfo" where
  "rk628_hdmirx_audio_set_fs fs aif =
     (let hdmirx_aud_clkrate_t = fs * 128;
          aif = rk628_clk_set_rate hdmirx_aud_clkrate_t aif
      in aif\<lparr>audio_state := (audio_state aif)
           \<lparr>hdmirx_aud_clkrate := hdmirx_aud_clkrate_t, fs_audio := fs\<rparr>\<rparr>)"

definition rk628_hdmirx_audio_enable ::
  "hdmirx_h \<Rightarrow> i2c_regs \<Rightarrow> rk628_audioinfo \<Rightarrow> rk628_audioinfo" where
  "rk628_hdmirx_audio_enable h rd aif =
     (let fifo_ints = rd HDMI_RX_AUD_FIFO_ISTS;
          aif = (if fifo_ints AND 0x18 = 0x18 then rk628_hdmirx_audio_fifo_initd aif
                 else if fifo_ints AND 0x18 \<noteq> 0 then rk628_hdmirx_audio_fifo_init aif
                 else aif);
          aif = rk628_i2c_update_bits HDMI_RX_DMI_DISABLE_IF [AUD_ENABLE] [(AUD_ENABLE, 1)] aif;
          aif = aif\<lparr>audio_state := (audio_state aif)\<lparr>audio_enable := True\<rparr>\<rparr>;
          aif = aif\<lparr>fifo_ints_en := True\<rparr>
      in rk628_i2c_write HDMI_RX_AUD_FIFO_IEN_SET
           (Val (AFIF_OVERFL_ISTS h OR AFIF_UNDERFL_ISTS h)) aif)"

section \<open>Rate tracking\<close>

text \<open>
  The end of \<open>rk628_csi_delayed_work_audio_v2\<close>, from the test of \<open>fifo_status\<close> to the
  rescheduling.  Both the branch of an unsupported rate (with \<open>delay = 1000\<close>) and the
  branch of a stable rate (with \<open>delay = 500\<close>) run into it.
\<close>

definition delayed_work_audio_v2_adjust ::
  "hdmirx_h \<Rightarrow> i2c_regs \<Rightarrow> s32 \<Rightarrow> s32 \<Rightarrow> s32 \<Rightarrow> nat \<Rightarrow> rk628_audioinfo \<Rightarrow> rk628_audioinfo" where
  "delayed_work_audio_v2_adjust h rd fifo_status init_st pre_st delay aif =
     (let aif =
            (if fifo_status \<noteq> 0 then
               (let aif = (if \<not> audio_present aif then aif\<lparr>audio_present := True\<rparr> else aif)
                in if 16 < sint (fifo_status - init_st) \<and> 0 < sint (fifo_status - pre_st)
                   then rk628_hdmirx_audio_clk_inc_rate 10 aif
                   else if sint (fifo_status - init_st) < - 16 \<and> sint (fifo_status - pre_st) < 0
                   then rk628_hdmirx_audio_clk_inc_rate (- 10) aif
                   else aif)
             else (if audio_present aif then aif\<lparr>audio_present := False\<rparr> else aif));
          aif = aif\<lparr>audio_state := (audio_state aif)\<lparr>pre_state := fifo_status\<rparr>\<rparr>;
          sample_flat = rd HDMI_RX_AUD_SPARE AND AUDS_MAS_SAMPLE_FLAT h;
          aif = (if sample_flat = 0
                 then rk628_i2c_update_bits GRF_SYSTEM_CON0 [SW_I2S_DATA_OEN]
                        [(SW_I2S_DATA_OEN, 0)] aif
                 else rk628_i2c_update_bits GRF_SYSTEM_CON0 [SW_I2S_DATA_OEN]
                        [(SW_I2S_DATA_OEN, 1)] aif)
      in schedule_delayed_work_audio delay aif)"

definition rk628_csi_delayed_work_audio_v2 ::
  "hdmirx_h \<Rightarrow> i2c_regs \<Rightarrow> rk628_audioinfo \<Rightarrow> rk628_audioinfo" where
  "rk628_csi_delayed_work_audio_v2 h rd aif =
     (let fs = underscore_rk628_hdmirx_audio_fs rd;
          fifo_ints = rd HDMI_RX_AUD_FIFO_ISTS
      in if fifo_ints AND (AFIF_UNDERFL_ISTS h OR AFIF_OVERFL_ISTS h) \<noteq> 0 then
           (let aif = (if is_validfs fs then rk628_hdmirx_audio_set_fs fs aif else aif);
                aif = rk628_hdmirx_audio_fifo_init aif;
                aif = aif\<lparr>audio_state := (audio_state aif)\<lparr>pre_state := 0\<rparr>\<rparr>
            in schedule_delayed_work_audio 500 aif)
         else
           (let init_st = init_state (audio_state aif);
                pre_st = pre_state (audio_state aif);
                fifo_status = rd HDMI_RX_AUD_FIFO_FILLSTS1
            in if \<not> is_validfs fs then
                 delayed_work_audio_v2_adjust h rd fifo_status init_st pre_st 1000 aif
               else if 1000 < sint (abs_int (fs - fs_audio (audio_state aif))) then
                 (let aif = rk628_hdmirx_audio_set_fs fs aif;
                      aif = rk628_hdmirx_audio_fifo_init aif;
                      aif = aif\<lparr>audio_state := (audio_state aif)\<lparr>pre_state := 0\<rparr>\<rparr>
                  in schedule_delayed_work_audio 500 aif)
               else delayed_work_audio_v2_adjust h rd fifo_status init_st pre_st 500 aif))"

definition rk628_csi_delayed_work_audio ::
  "hdmirx_h \<Rightarrow> i2c_regs \<Rightarrow> rk628_audioinfo \<Rightarrow> rk628_audioinfo" where
  "rk628_csi_delayed_work_audio h rd aif =
     (let init_st = init_state (audio_state aif);
          pre_st = pre_state (audio_state aif);
          fs = underscore_rk628_hdmirx_audio_fs rd
      in if \<not> is_validfs fs then schedule_delayed_work_audio 1000 aif
         else if \<not> audio_enable (audio_state aif) then
           (let aif = rk628_hdmirx_audio_set_fs fs aif;
                aif = rk628_hdmirx_audio_enable h rd aif
            in schedule_delayed_work_audio 1000 aif)
         else
           (let aif = (if 1000 < sint (abs_int (fs - fs_audio (audio_state aif)))
                       then rk628_hdmirx_audio_set_fs fs aif else aif);
                cur_state = rd HDMI_RX_AUD_FIFO_FILLSTS1;
                aif = (if cur_state \<noteq> 0 then aif\<lparr>audio_present := True\<rparr>
                       else aif\<lparr>audio_present := False\<rparr>);
                aif = (if 16 < sint (cur_state - init_st) \<and> 0 < sint (cur_state - pre_st)
                       then rk628_hdmirx_audio_clk_inc_rate 10 aif
                       else if cur_state \<noteq> 0 \<and> sint (cur_state - init_st) < - 16
                                 \<and> sint (cur_state - pre_st) < 0
                       then rk628_hdmirx_audio_clk_inc_rate (- 10) aif
                       else aif);
                aif = aif\<lparr>audio_state := (audio_state aif)\<lparr>pre_state := cur_state\<rparr>\<rparr>
            in schedule_delayed_work_audio 1000 aif))"

text \<open>The resync pass.  It runs under the mutex of the owner, one call at a time with the
  other operations, which is how the operations compose here.\<close>

definition rk628_csi_delayed_work_audio_rate_change ::
  "hdmirx_h \<Rightarrow> i2c_regs \<Rightarrow> rk628_audioinfo \<Rightarrow> rk628_audioinfo" where
  "rk628_csi_delayed_work_audio_rate_change h rd aif =
     (let fs = underscore_rk628_hdmirx_audio_fs rd;
          aif = (if ctsn_flag (audio_state aif) = (ACR_N_CHG_ICLR h OR ACR_CTS_CHG_ICLR h) then
                   (let aif = aif\<lparr>audio_state := (audio_state aif)\<lparr>ctsn_flag := 0\<rparr>\<rparr>;
                        aif = (if is_validfs fs then
                                 rk628_hdmirx_audio_enable h rd (rk628_hdmirx_audio_set_fs fs aif)
                               else aif)
                    in schedule_delayed_work_audio 1000 aif)
                 else aif)
      in if fifo_int (audio_state aif) then
           (let aif = aif\<lparr>audio_state := (audio_state aif)\<lparr>fifo_int := False\<rparr>\<rparr>;
                aif = (if is_validfs fs then rk628_hdmirx_audio_set_fs fs aif else aif);
                fifo_fillsts = rd HDMI_RX_AUD_FIFO_FILLSTS1
            in if fifo_fillsts = 0 then rk628_hdmirx_audio_fifo_initd aif
               else rk628_hdmirx_audio_fifo_initd aif)
         else aif)"

section \<open>The interface of the owner\<close>

text \<open>\<open>HAUDINFO\<close> is a pointer to the audio information; \<open>None\<close> is the null pointer.\<close>

type_synonym HAUDINFO = "rk628_audioinfo option"

fun rk628_hdmirx_audio_present :: "HAUDINFO \<Rightarrow> bool" where
  "rk628_hdmirx_audio_present None = False"
| "rk628_hdmirx_audio_present (Some aif) = audio_present aif"

fun rk628_hdmirx_audio_fs :: "HAUDINFO \<Rightarrow> s32" where
  "rk628_hdmirx_audio_fs None = 0"
| "rk628_hdmirx_audio_fs (Some aif) = fs_audio (audio_state aif)"

definition rk628_hdmirx_audio_setup :: "hdmirx_h \<Rightarrow> rk628_audioinfo \<Rightarrow> rk628_audioinfo" where
  "rk628_hdmirx_audio_setup h aif =
     (let audio_pll_n = 5644;
          audio_pll_cts = 148500;
          aif = aif\<lparr>audio_state := (audio_state aif)
                  \<lparr>ctsn_flag := 0, fs_audio := 0, pre_state := 0,
                   init_state := INIT_FIFO_STATE * 4, fifo_int := False,
                   audio_enable := False\<rparr>\<rparr>;
          aif = aif\<lparr>fifo_ints_en := False, ctsn_ints_en := False, i2s_enabled := False\<rparr>;
          aif = (if rk628f aif then rk628_i2c_write CRU_MODE_CON00 (HIWORD_UPDATE 1 4 4) aif
                 else aif);
          aif = rk628_hdmirx_audio_clk_set_rate 5644800 aif;
          aif = rk628_i2c_write HDMI_RX_AUDPLL_GEN_CTS (Val audio_pll_cts) aif;
          aif = rk628_i2c_write HDMI_RX_AUDPLL_GEN_N (Val audio_pll_n) aif;
          aif = rk628_i2c_update_bits HDMI_RX_AUD_CLK_CTRL [CTS_N_REF] [(CTS_N_REF, 1)] aif;
          aif = rk628_i2c_update_bits HDMI_RX_AUD_PLL_CTRL [PLL_LOCK_TOGGLE_DIV]
                  [(PLL_LOCK_TOGGLE_DIV, 0)] aif;
          aif = rk628_i2c_update_bits HDMI_RX_AUD_FIFO_TH
                  [AFIF_TH_START, AFIF_TH_MAX, AFIF_TH_MIN]
                  [(AFIF_TH_START, 64), (AFIF_TH_MAX, 8), (AFIF_TH_MIN, 8)] aif;
          aif = rk628_i2c_update_bits HDMI_RX_AUD_FIFO_CTRL
                  [AFIF_SUBPACKET_DESEL, AFIF_SUBPACKETS]
                  [(AFIF_SUBPACKET_DESEL, 0), (AFIF_SUBPACKETS, 1)] aif;
          aif = rk628_i2c_write HDMI_RX_AUD_SAO_CTRL
                  (Bits ([(I2S_LPCM_BPCUV, 0), (I2S_32_16, 1)] @
                     (if i2s_enabled_default aif then [] else [(I2S_ENABLE_BITS, 0x3f)]))) aif;
          aif = aif\<lparr>i2s_enabled := i2s_enabled_default aif\<rparr>;
          aif = rk628_i2c_write HDMI_RX_AUD_MUTE_CTRL
                  (Bits [(APPLY_INT_MUTE, 0), (APORT_SHDW_CTRL, 3), (AUTO_ACLK_MUTE, 2),
                         (AUD_MUTE_SPEED, 1), (AUD_AVMUTE_EN, 1), (AUD_MUTE_SEL, 0),
                         (AUD_MUTE_MODE, 1)]) aif;
          aif = rk628_i2c_write HDMI_RX_AUD_PAO_CTRL (Bits [(PAO_RATE, 0)]) aif;
          aif = rk628_i2c_write HDMI_RX_AUD_CHEXTR_CTRL (Bits [(AUD_LAYOUT_CTRL, 1)]) aif
      in if rk628f aif then
           (let aif = rk628_i2c_update_bits HDMI_RX_DMI_DISABLE_IF [AUD_ENABLE]
                        [(AUD_ENABLE, 1)] aif
            in schedule_delayed_work_audio 1000 aif)
         else
           (let aif = aif\<lparr>ctsn_ints_en := True\<rparr>;
                aif = rk628_i2c_write HDMI_RX_PDEC_IEN_SET
                        (Val (ACR_N_CHG_ICLR h OR ACR_CTS_CHG_ICLR h)) aif
            in rk628_i2c_write HDMI_RX_PDEC_AUDIODET_CTRL (Bits [(AUDIODET_THRESHOLD, 0)]) aif))"

definition rk628_csi_isr_ctsn :: "hdmirx_h \<Rightarrow> u32 \<Rightarrow> rk628_audioinfo \<Rightarrow> rk628_audioinfo" where
  "rk628_csi_isr_ctsn h pdec_ints aif =
     (let ctsn_mask = ACR_N_CHG_ICLR h OR ACR_CTS_CHG_ICLR h;
          aif = (if pdec_ints AND ACR_N_CHG_ICLR h \<noteq> 0
                 then aif\<lparr>audio_state := (audio_state aif)
                        \<lparr>ctsn_flag := ctsn_flag (audio_state aif) OR ACR_N_CHG_ICLR h\<rparr>\<rparr>
                 else aif);
          aif = (if pdec_ints AND ACR_CTS_CHG_ICLR h \<noteq> 0
                 then aif\<lparr>audio_state := (audio_state aif)
                        \<lparr>ctsn_flag := ctsn_flag (audio_state aif) OR ACR_CTS_CHG_ICLR h\<rparr>\<rparr>
                 else aif);
          aif = (if ctsn_flag (audio_state aif) = ctsn_mask then
                   (let aif = rk628_i2c_write HDMI_RX_PDEC_IEN_CLR (Val ctsn_mask) aif;
                        aif = aif\<lparr>ctsn_ints_en := False\<rparr>
                    in schedule_delayed_work_audio_rate_change 0 aif)
                 else aif)
      in rk628_i2c_write HDMI_RX_PDEC_ICLR (Val (pdec_ints AND ctsn_mask)) aif)"

definition rk628_csi_isr_fifoints :: "hdmirx_h \<Rightarrow> u32 \<Rightarrow> rk628_audioinfo \<Rightarrow> rk628_audioinfo" where
  "rk628_csi_isr_fifoints h fifo_ints aif =
     (let fifo_mask = AFIF_OVERFL_ISTS h OR AFIF_UNDERFL_ISTS h;
          aif = (if fifo_ints AND AFIF_OVERFL_ISTS h \<noteq> 0
                 then aif\<lparr>audio_state := (audio_state aif)
                        \<lparr>fifo_flag := fifo_flag (audio_state aif) OR AFIF_OVERFL_ISTS h\<rparr>\<rparr>
                 else aif);
          aif = (if fifo_ints AND AFIF_UNDERFL_ISTS h \<noteq> 0
                 then aif\<lparr>audio_state := (audio_state aif)
                        \<lparr>fifo_flag := fifo_flag (audio_state aif) OR AFIF_UNDERFL_ISTS h\<rparr>\<rparr>
                 else aif);
          aif = (if fifo_flag (audio_state aif) = fifo_mask then
                   (let aif = aif\<lparr>audio_state := (audio_state aif)
                                \<lparr>fifo_int := True, fifo_flag := 0\<rparr>\<rparr>
                    in schedule_delayed_work_audio_rate_change 0 aif)
                 else aif)
      in rk628_i2c_write HDMI_RX_AUD_FIFO_ICLR (Val (fifo_ints AND fifo_mask)) aif)"

section \<open>Notions used to state the properties\<close>

text \<open>The table entries that the two loops visit: those before the terminator.\<close>

definition supported_rates :: "s32 list" where
  "supported_rates = takeWhile (\<lambda>t. 0 < sint t) supported_fs"

definition within_2000 :: "s32 \<Rightarrow> s32 \<Rightarrow> bool" where
  "within_2000 fs t = (\<bar>sint fs - sint t\<bar> \<le> 2000)"

definition strictly_closest :: "s32 \<Rightarrow> s32 \<Rightarrow> bool" where
  "strictly_closest fs r =
     list_all (\<lambda>t. t = r \<or> \<bar>sint fs - sint r\<bar> < \<bar>sint fs - sint t\<bar>) supported_rates"

definition no_rate_within_2000 :: "s32 \<Rightarrow> bool" where
  "no_rate_within_2000 fs = list_all (\<lambda>t. \<not> within_2000 fs t) supported_rates"

text \<open>Two status bits of one register: both present and without a common bit.\<close>

definition two_bits :: "u32 \<Rightarrow> u32 \<Rightarrow> bool" where
  "two_bits a b = (a \<noteq> 0 \<and> b \<noteq> 0 \<and> a AND b = 0)"

text \<open>How often the resync pass has been scheduled, and how often the double FIFO
  reinitialisation has run: only \<open>rk628_hdmirx_audio_fifo_initd\<close> raises the start
  threshold to 192, and it does so once per call.\<close>

definition rate_change_dispatches :: "rk628_audioinfo \<Rightarrow> nat" where
  "rate_change_dispatches aif =
     length (filter (\<lambda>op. case op of Schedule_rate_change ms \<Rightarrow> True | _ \<Rightarrow> False)
       (hw_ops aif))"

definition fifo_initd_calls :: "rk628_audioinfo \<Rightarrow> nat" where
  "fifo_initd_calls aif =
     count_list (hw_ops aif)
       (I2c_update_bits HDMI_RX_AUD_FIFO_TH [AFIF_TH_START] [(AFIF_TH_START, 192)])"

text \<open>The clock settings made between an earlier and a later state of one handle.\<close>

definition clk_ops_since :: "rk628_audioinfo \<Rightarrow> rk628_audioinfo \<Rightarrow> hw_op list" where
  "clk_ops_since before after =
     filter (\<lambda>op. case op of Clk_set_rate r \<Rightarrow> True | _ \<Rightarrow> False)
       (drop (length (hw_ops before)) (hw_ops after))"

text \<open>A series of CTS/N notifications, delivered in order.\<close>

definition isr_ctsn_series :: "hdmirx_h \<Rightarrow> u32 list \<Rightarrow> rk628_audioinfo \<Rightarrow> rk628_audioinfo" where
  "isr_ctsn_series h xs aif = foldl (\<lambda>a x. rk628_csi_isr_ctsn h x a) aif xs"

text \<open>
  The states the handle can be in: after \<open>rk628_hdmirx_audio_setup\<close> (on a handle of any
  content), and after any of the periodic works, the resync pass and the two notifications,
  whatever the chip returns to their reads.
\<close>

inductive_set reachable :: "hdmirx_h \<Rightarrow> rk628_audioinfo set" for h :: hdmirx_h where
  after_setup: "rk628_hdmirx_audio_setup h aif \<in> reachable h"
| tick_v2: "aif \<in> reachable h \<Longrightarrow> rk628_csi_delayed_work_audio_v2 h rd aif \<in> reachable h"
| tick: "aif \<in> reachable h \<Longrightarrow> rk628_csi_delayed_work_audio h rd aif \<in> reachable h"
| resync:
    "aif \<in> reachable h \<Longrightarrow> rk628_csi_delayed_work_audio_rate_change h rd aif \<in> reachable h"
| isr_ctsn: "aif \<in> reachable h \<Longrightarrow> rk628_csi_isr_ctsn h pdec_ints aif \<in> reachable h"
| isr_fifoints: "aif \<in> reachable h \<Longrightarrow> rk628_csi_isr_fifoints h fifo_ints aif \<in> reachable h"

text \<open>
  What one periodic work did to the audio clock: with \<open>up\<close> it set the rate 10 Hz higher
  (once), else with \<open>down\<close> 10 Hz lower (once), else it left the clock alone.
\<close>

definition nudge_outcome :: "bool \<Rightarrow> bool \<Rightarrow> rk628_audioinfo \<Rightarrow> rk628_audioinfo \<Rightarrow> bool" where
  "nudge_outcome up down before after =
     (let r0 = hdmirx_aud_clkrate (audio_state before)
      in clk_ops_since before after =
           (if up then [Clk_set_rate (r0 + 10)]
            else if down then [Clk_set_rate (r0 - 10)] else [])
         \<and> hdmirx_aud_clkrate (audio_state after) =
           (if up then r0 + 10 else if down then r0 - 10 else r0))"

text \<open>The FIFO flags as \<open>rk628_csi_isr_fifoints\<close> accumulates them, before it tests them.\<close>

definition fifo_flag_seen :: "hdmirx_h \<Rightarrow> u32 \<Rightarrow> rk628_audioinfo \<Rightarrow> u32" where
  "fifo_flag_seen h x aif =
     (fifo_flag (audio_state aif)
        OR (if x AND AFIF_OVERFL_ISTS h \<noteq> 0 then AFIF_OVERFL_ISTS h else 0))
        OR (if x AND AFIF_UNDERFL_ISTS h \<noteq> 0 then AFIF_UNDERFL_ISTS h else 0)"

section \<open>The driver at run time\<close>

text \<open>
  \<open>rk628_hdmirx_audioinfo_alloc\<close>: the handle comes zeroed from the allocator
  (\<open>mem_ok\<close> says whether it had memory; without, the result is the null pointer), the
  version of the chip selects the periodic work, and \<open>i2s_enabled_default\<close> is stored.
\<close>

definition rk628_hdmirx_audioinfo_alloc :: "bool \<Rightarrow> bool \<Rightarrow> bool \<Rightarrow> HAUDINFO" where
  "rk628_hdmirx_audioinfo_alloc mem_ok is_f en =
     (if \<not> mem_ok then None
      else Some
        \<lparr>audio_state = \<lparr>hdmirx_aud_clkrate = 0, fs_audio = 0, ctsn_flag = 0, fifo_flag = 0,
           init_state = 0, pre_state = 0, fifo_int = False, audio_enable = False\<rparr>,
         i2s_enabled_default = en, i2s_enabled = False, fifo_ints_en = False,
         ctsn_ints_en = False, audio_present = False, rk628f = is_f, hw_ops = []\<rparr>)"

text \<open>The two flags that the owner asks for before it forwards an interrupt.\<close>

definition rk628_audio_fifoints_enabled :: "rk628_audioinfo \<Rightarrow> bool" where
  "rk628_audio_fifoints_enabled aif = fifo_ints_en aif"

definition rk628_audio_ctsnints_enabled :: "rk628_audioinfo \<Rightarrow> bool" where
  "rk628_audio_ctsnints_enabled aif = ctsn_ints_en aif"

text \<open>Whether an operation called \<open>schedule_delayed_work\<close> for the periodic work, or for
  the resync pass: read off what it added to the record of the handle.\<close>

definition audio_scheduled_since :: "rk628_audioinfo \<Rightarrow> rk628_audioinfo \<Rightarrow> bool" where
  "audio_scheduled_since before after =
     list_ex (\<lambda>op. case op of Schedule_audio ms \<Rightarrow> True | _ \<Rightarrow> False)
       (drop (length (hw_ops before)) (hw_ops after))"

definition rate_change_scheduled_since :: "rk628_audioinfo \<Rightarrow> rk628_audioinfo \<Rightarrow> bool" where
  "rate_change_scheduled_since before after =
     list_ex (\<lambda>op. case op of Schedule_rate_change ms \<Rightarrow> True | _ \<Rightarrow> False)
       (drop (length (hw_ops before)) (hw_ops after))"

text \<open>The periodic work of a handle, as \<open>INIT_DELAYED_WORK\<close> chose it at allocation.\<close>

definition delayed_work_audio :: "hdmirx_h \<Rightarrow> i2c_regs \<Rightarrow> rk628_audioinfo \<Rightarrow> rk628_audioinfo" where
  "delayed_work_audio h rd aif =
     (if rk628f aif then rk628_csi_delayed_work_audio_v2 h rd aif
      else rk628_csi_delayed_work_audio h rd aif)"

text \<open>
  Modelled from the spec: the owner of the handle (its source, rk628_csi.c, is not among the
  sources) and the kernel's delayed works.  A state is the handle with two flags: the
  periodic work is pending, the resync pass is pending.  A work runs only while pending,
  that is after a \<open>schedule_delayed_work\<close> call for it, and is no longer pending when it
  runs, unless it schedules itself again.  The owner forwards a CTS/N or FIFO interrupt only
  while the handle reports it enabled ("disables further CTS/N interrupts", "arms
  overflow/underflow interrupt notifications").  It may cancel either work at any time
  (\<open>rk628_hdmirx_audio_cancel_work_audio\<close>, \<open>rk628_hdmirx_audio_cancel_work_rate_change\<close>),
  and it sets a handle up first after allocation, and again only when no work is pending
  ("pending periodic and resync tasks must be cancelled").
\<close>

inductive_set driver_states :: "hdmirx_h \<Rightarrow> (rk628_audioinfo \<times> bool \<times> bool) set"
  for h :: hdmirx_h where
  first_setup:
    "rk628_hdmirx_audioinfo_alloc True is_f en = Some aif \<Longrightarrow>
     aif' = rk628_hdmirx_audio_setup h aif \<Longrightarrow>
     (aif', audio_scheduled_since aif aif', rate_change_scheduled_since aif aif')
       \<in> driver_states h"
| setup_again:
    "(aif, False, False) \<in> driver_states h \<Longrightarrow>
     aif' = rk628_hdmirx_audio_setup h aif \<Longrightarrow>
     (aif', audio_scheduled_since aif aif', rate_change_scheduled_since aif aif')
       \<in> driver_states h"
| work_audio:
    "(aif, True, pr) \<in> driver_states h \<Longrightarrow>
     aif' = delayed_work_audio h rd aif \<Longrightarrow>
     (aif', audio_scheduled_since aif aif', pr \<or> rate_change_scheduled_since aif aif')
       \<in> driver_states h"
| work_rate_change:
    "(aif, pa, True) \<in> driver_states h \<Longrightarrow>
     aif' = rk628_csi_delayed_work_audio_rate_change h rd aif \<Longrightarrow>
     (aif', pa \<or> audio_scheduled_since aif aif', rate_change_scheduled_since aif aif')
       \<in> driver_states h"
| notify_ctsn:
    "(aif, pa, pr) \<in> driver_states h \<Longrightarrow>
     rk628_audio_ctsnints_enabled aif \<Longrightarrow>
     aif' = rk628_csi_isr_ctsn h pdec_ints aif \<Longrightarrow>
     (aif', pa \<or> audio_scheduled_since aif aif', pr \<or> rate_change_scheduled_since aif aif')
       \<in> driver_states h"
| notify_fifoints:
    "(aif, pa, pr) \<in> driver_states h \<Longrightarrow>
     rk628_audio_fifoints_enabled aif \<Longrightarrow>
     aif' = rk628_csi_isr_fifoints h fifo_ints aif \<Longrightarrow>
     (aif', pa \<or> audio_scheduled_since aif aif', pr \<or> rate_change_scheduled_since aif aif')
       \<in> driver_states h"
| cancel_work_audio:
    "(aif, pa, pr) \<in> driver_states h \<Longrightarrow> (aif, False, pr) \<in> driver_states h"
| cancel_work_rate_change:
    "(aif, pa, pr) \<in> driver_states h \<Longrightarrow> (aif, pa, False) \<in> driver_states h"

text \<open>
  The three phases of a run: CTS/N notifications awaited and nothing else armed; both CTS/N
  bits seen, their interrupts off, the FIFO notifications not yet armed; CTS/N flags
  consumed and their interrupts off.
\<close>

definition run_phase :: "hdmirx_h \<Rightarrow> rk628_audioinfo \<times> bool \<times> bool \<Rightarrow> bool" where
  "run_phase h s =
     (case s of (aif, pa, pr) \<Rightarrow>
        (ctsn_ints_en aif \<and> \<not> pa \<and> \<not> pr \<and> \<not> fifo_ints_en aif
           \<and> ctsn_flag (audio_state aif) \<noteq> (ACR_N_CHG_ICLR h OR ACR_CTS_CHG_ICLR h))
      \<or> (\<not> ctsn_ints_en aif \<and> \<not> pa \<and> \<not> fifo_ints_en aif
           \<and> ctsn_flag (audio_state aif) = (ACR_N_CHG_ICLR h OR ACR_CTS_CHG_ICLR h))
      \<or> (\<not> ctsn_ints_en aif \<and> ctsn_flag (audio_state aif) = 0))"

section \<open>Sample inputs\<close>

text \<open>
  One assignment of the status bits (the FIFO bits are the \<open>0x18\<close> that
  \<open>rk628_hdmirx_audio_enable\<close> tests), register values that give the rate 44100, a handle
  as the allocation leaves it (zeroed), and a handle that tracks 44100 Hz.
\<close>

definition sample_h :: hdmirx_h where
  "sample_h = \<lparr>ACR_N_CHG_ICLR = 0x800000, ACR_CTS_CHG_ICLR = 0x400000,
     AFIF_OVERFL_ISTS = 0x10, AFIF_UNDERFL_ISTS = 0x08, AUDS_MAS_SAMPLE_FLAT = 0x3c\<rparr>"

definition sample_regs :: "u32 \<Rightarrow> u32 \<Rightarrow> i2c_regs" where
  "sample_regs ists fill =
     (\<lambda>r. 0)(HDMI_RX_HDMI_CKM_RESULT := 3000, HDMI_RX_PDEC_ACR_CTS := 148500,
        HDMI_RX_PDEC_ACR_N := 5644, HDMI_RX_AUD_FIFO_ISTS := ists,
        HDMI_RX_AUD_FIFO_FILLSTS1 := fill)"

definition zeroed_aif :: rk628_audioinfo where
  "zeroed_aif =
     \<lparr>audio_state = \<lparr>hdmirx_aud_clkrate = 0, fs_audio = 0, ctsn_flag = 0, fifo_flag = 0,
        init_state = 0, pre_state = 0, fifo_int = False, audio_enable = False\<rparr>,
      i2s_enabled_default = False, i2s_enabled = False, fifo_ints_en = False,
      ctsn_ints_en = False, audio_present = False, rk628f = False, hw_ops = []\<rparr>"

definition tracking_aif :: rk628_audioinfo where
  "tracking_aif =
     \<lparr>audio_state = \<lparr>hdmirx_aud_clkrate = 5644800, fs_audio = 44100, ctsn_flag = 0,
        fifo_flag = 0, init_state = 256, pre_state = 256, fifo_int = False,
        audio_enable = True\<rparr>,
      i2s_enabled_default = False, i2s_enabled = False, fifo_ints_en = True,
      ctsn_ints_en = False, audio_present = True, rk628f = False, hw_ops = []\<rparr>"

section \<open>Arithmetic of 32-bit values\<close>

lemma wrap32_cases:
  assumes "- 4294967296 \<le> (d::int)" "d < 4294967296"
  shows "(d + 2147483648) mod 4294967296 - 2147483648 =
     (if d < - 2147483648 then d + 4294967296
      else if d < 2147483648 then d else d - 4294967296)"
proof -
  consider "d < - 2147483648" | "- 2147483648 \<le> d \<and> d < 2147483648" | "2147483648 \<le> d"
    by linarith
  then show ?thesis
  proof cases
    case 1
    have "(d + 2147483648) mod 4294967296 = (d + 2147483648 + 4294967296) mod 4294967296"
      by (rule mod_add_self2 [symmetric])
    also have "\<dots> = d + 2147483648 + 4294967296"
      using 1 assms by (intro mod_pos_pos_trivial) linarith+
    finally show ?thesis using 1 by simp
  next
    case 2
    have "(d + 2147483648) mod 4294967296 = d + 2147483648"
      using 2 by (intro mod_pos_pos_trivial) linarith+
    then show ?thesis using 2 by simp
  next
    case 3
    have "d + 2147483648 = d - 2147483648 + 4294967296"
      by simp
    then have "(d + 2147483648) mod 4294967296 = (d - 2147483648 + 4294967296) mod 4294967296"
      by (rule arg_cong)
    also have "\<dots> = (d - 2147483648) mod 4294967296"
      by (rule mod_add_self2)
    also have "\<dots> = d - 2147483648"
      using 3 assms by (intro mod_pos_pos_trivial) linarith+
    finally show ?thesis using 3 by simp
  qed
qed

lemma sint_range32: "- 2147483648 \<le> sint (a::32 word) \<and> sint a < 2147483648"
  using sint_ge[of a] sint_lt[of a] by simp

lemma sint_sub32:
  "sint ((a::32 word) - b) =
     (if sint a - sint b < - 2147483648 then sint a - sint b + 4294967296
      else if sint a - sint b < 2147483648 then sint a - sint b
      else sint a - sint b - 4294967296)"
proof -
  have "sint (a - b) = (sint a - sint b + 2147483648) mod 4294967296 - 2147483648"
    by (simp add: sint_word_ariths signed_take_bit_eq_take_bit_shift take_bit_eq_mod)
  also have "\<dots> = (if sint a - sint b < - 2147483648 then sint a - sint b + 4294967296
      else if sint a - sint b < 2147483648 then sint a - sint b
      else sint a - sint b - 4294967296)"
    using sint_range32[of a] sint_range32[of b] by (intro wrap32_cases) linarith+
  finally show ?thesis .
qed

lemma sint_neg32:
  "sint (- (a::32 word)) = (if sint a = - 2147483648 then - 2147483648 else - sint a)"
proof -
  have "sint (- a) = (- sint a + 2147483648) mod 4294967296 - 2147483648"
    by (simp add: sint_word_ariths signed_take_bit_eq_take_bit_shift take_bit_eq_mod)
  also have "\<dots> = (if - sint a < - 2147483648 then - sint a + 4294967296
      else if - sint a < 2147483648 then - sint a else - sint a - 4294967296)"
    using sint_range32[of a] by (intro wrap32_cases) linarith+
  finally show ?thesis using sint_range32[of a] by (auto split: if_splits)
qed

lemma sint_abs_int_le:
  "sint (abs_int x) \<le> 2000 \<longleftrightarrow> (\<bar>sint x\<bar> \<le> 2000 \<or> sint x = - 2147483648)"
  unfolding abs_int_def by (auto simp: sint_neg32)

text \<open>The window test of the snapping loop, read on the integers: apart from the one
  difference that wraps to the least \<open>int\<close>, it is the distance test.\<close>

lemma window_test_iff:
  assumes "0 \<le> sint t" "sint t \<le> 768000"
  shows "sint (abs_int (fs - t)) \<le> 2000 \<longleftrightarrow>
     (\<bar>sint fs - sint t\<bar> \<le> 2000 \<or> sint fs - sint t = - 2147483648)"
proof -
  let ?d = "sint fs - sint t"
  have r: "- 2147483648 - 768000 \<le> ?d" "?d < 2147483648"
    using assms sint_range32[of fs] by linarith+
  consider "?d < - 2147483648" | "- 2147483648 \<le> ?d" by linarith
  then show ?thesis
  proof cases
    case 1
    then have "sint (fs - t) = ?d + 4294967296" by (simp add: sint_sub32)
    then show ?thesis using 1 r by (simp add: sint_abs_int_le)
  next
    case 2
    then have "sint (fs - t) = ?d" using r by (simp add: sint_sub32)
    then show ?thesis by (simp add: sint_abs_int_le)
  qed
qed

section \<open>The table and the snapping\<close>

lemma supported_rates_eq:
  "supported_rates = [32000, 44100, 48000, 88200, 96000, 176400, 192000, 768000]"
  by (simp add: supported_rates_def supported_fs_def)

lemma is_validfs_iff:
  "is_validfs fs \<longleftrightarrow> fs \<in> {32000, 44100, 48000, 88200, 96000, 176400, 192000, 768000}"
  by (simp add: is_validfs_def supported_fs_def)

lemma find_closest_fs_unfold:
  "rk628_hdmirx_audio_find_closest_fs fs =
     (if sint (abs_int (fs - 32000)) \<le> 2000 then 32000
      else if sint (abs_int (fs - 44100)) \<le> 2000 then 44100
      else if sint (abs_int (fs - 48000)) \<le> 2000 then 48000
      else if sint (abs_int (fs - 88200)) \<le> 2000 then 88200
      else if sint (abs_int (fs - 96000)) \<le> 2000 then 96000
      else if sint (abs_int (fs - 176400)) \<le> 2000 then 176400
      else if sint (abs_int (fs - 192000)) \<le> 2000 then 192000
      else if sint (abs_int (fs - 768000)) \<le> 2000 then 768000
      else - 1)"
  by (simp add: rk628_hdmirx_audio_find_closest_fs_def supported_fs_def)

text \<open>
  C1.  Claim: for every table entry R and every raw estimate within 2000 Hz of R that is
  strictly closer to R than to any other entry, the snapping step returns R.  The loop
  returns the first entry within 2000 Hz, and the windows of 44100 and 48000 overlap
  (they are 3900 apart): the raw estimate 46062 is within 2000 Hz of 48000 and strictly
  closer to 48000 than to every other entry, yet the function named for the closest rate
  returns 44100.  The estimator computes that raw estimate from the register values
  clkrate = 3000, CTS = 148500, N = 5896, and reports 44100.
\<close>

theorem find_closest_fs_returns_first_not_closest:
  "within_2000 46062 48000 \<and> strictly_closest 46062 48000
     \<and> rk628_hdmirx_audio_find_closest_fs 46062 = 44100
     \<and> (ucast (div_u64 (tmdsclk_of 3000 * ucast (5896 :: u32)) 148500) :: u32) div 128 = 46062
     \<and> underscore_rk628_hdmirx_audio_fs
           ((\<lambda>r. 0)(HDMI_RX_HDMI_CKM_RESULT := 3000, HDMI_RX_PDEC_ACR_CTS := 148500,
              HDMI_RX_PDEC_ACR_N := 5896)) = 44100"
  by (simp add: within_2000_def strictly_closest_def supported_rates_eq
      find_closest_fs_unfold abs_int_def underscore_rk628_hdmirx_audio_fs_def
      tmdsclk_of_def div_u64_def is_validfs_iff)

text \<open>
  C2.  Claim: for every input that is not within 2000 Hz of any table entry, the snapping
  function returns the input unmodified.  It does not: the loop ends on the terminator of
  the table and the function returns that entry, \<open>-1\<close>.  The input 0 is within 2000 Hz of
  no entry and the result is not 0.
\<close>

theorem find_closest_fs_unmatched_counterexample:
  "no_rate_within_2000 0 \<and> rk628_hdmirx_audio_find_closest_fs 0 \<noteq> 0"
  by (simp add: within_2000_def no_rate_within_2000_def supported_rates_eq
      find_closest_fs_unfold abs_int_def)

text \<open>
  C2, as the code has it: for every input that is not within 2000 Hz of any table entry, and
  not exactly \<open>2^31\<close> below one (where the 32-bit difference is the least \<open>int\<close>, which
  \<open>abs\<close> leaves negative), the snapping function returns \<open>-1\<close>, the terminator of the
  table.
\<close>

theorem find_closest_fs_unmatched:
  assumes "no_rate_within_2000 fs"
    and "list_all (\<lambda>t. sint fs - sint t \<noteq> - 2147483648) supported_rates"
  shows "rk628_hdmirx_audio_find_closest_fs fs = - 1"
  using assms
  by (simp add: no_rate_within_2000_def within_2000_def supported_rates_eq
      find_closest_fs_unfold window_test_iff)

theorem find_closest_fs_unmatched_witness:
  "no_rate_within_2000 40000
     \<and> list_all (\<lambda>t. sint (40000::s32) - sint t \<noteq> - 2147483648) supported_rates
     \<and> rk628_hdmirx_audio_find_closest_fs 40000 = - 1"
  using find_closest_fs_unmatched [of 40000]
  by (simp add: no_rate_within_2000_def within_2000_def supported_rates_eq)

text \<open>
  C4.  For every value of the TMDS clock counter and every N, if the CTS register reads 0
  then the sample-rate estimator returns 0.
\<close>

theorem audio_fs_cts_zero:
  "rd HDMI_RX_PDEC_ACR_CTS = 0 \<Longrightarrow> underscore_rk628_hdmirx_audio_fs rd = 0"
  by (simp add: underscore_rk628_hdmirx_audio_fs_def Let_def is_validfs_iff)

theorem audio_fs_cts_zero_witness:
  "((\<lambda>r. 3000)(HDMI_RX_PDEC_ACR_CTS := 0)) HDMI_RX_PDEC_ACR_CTS = (0::u32)
     \<and> underscore_rk628_hdmirx_audio_fs ((\<lambda>r. 3000)(HDMI_RX_PDEC_ACR_CTS := 0)) = 0"
  using audio_fs_cts_zero [of "(\<lambda>r. 3000)(HDMI_RX_PDEC_ACR_CTS := 0)"] by simp

text \<open>
  C8.  For the register values clkrate = 3000, CTS = 148500, N = 5644 the estimator computes
  the TMDS clock \<open>3000 * 49500 = 148500000\<close>; the 64-bit product with N is the exact
  product (no overflow); the raw quotient, \<open>148500000 * 5644 / 148500 / 128\<close>, is within
  2000 Hz of 44100, which is the closest table entry; and the estimator returns exactly
  44100.
\<close>

theorem audio_fs_scenario:
  assumes "rd HDMI_RX_HDMI_CKM_RESULT = 3000"
    and "rd HDMI_RX_PDEC_ACR_CTS = 148500"
    and "rd HDMI_RX_PDEC_ACR_N = 5644"
  shows "unat (tmdsclk_of (rd HDMI_RX_HDMI_CKM_RESULT AND 0xffff)) = 3000 * 49500
     \<and> (3000 * 49500 = (148500000 :: nat))
     \<and> unat (tmdsclk_of (rd HDMI_RX_HDMI_CKM_RESULT AND 0xffff)
               * ucast (rd HDMI_RX_PDEC_ACR_N)) = 148500000 * 5644
     \<and> unat ((ucast (div_u64 (tmdsclk_of (rd HDMI_RX_HDMI_CKM_RESULT AND 0xffff)
                 * ucast (rd HDMI_RX_PDEC_ACR_N)) (rd HDMI_RX_PDEC_ACR_CTS)) :: u32) div 128)
         = 148500000 * 5644 div 148500 div 128
     \<and> within_2000 (of_nat (148500000 * 5644 div 148500 div 128)) 44100
     \<and> strictly_closest (of_nat (148500000 * 5644 div 148500 div 128)) 44100
     \<and> underscore_rk628_hdmirx_audio_fs rd = 44100"
  using assms
  by (simp add: underscore_rk628_hdmirx_audio_fs_def tmdsclk_of_def div_u64_def
      find_closest_fs_unfold abs_int_def is_validfs_iff within_2000_def strictly_closest_def
      supported_rates_eq)

theorem audio_fs_scenario_witness:
  "underscore_rk628_hdmirx_audio_fs
     ((\<lambda>r. 0)(HDMI_RX_HDMI_CKM_RESULT := 3000, HDMI_RX_PDEC_ACR_CTS := 148500,
        HDMI_RX_PDEC_ACR_N := 5644)) = 44100"
  using audio_fs_scenario [of "(\<lambda>r. 0)(HDMI_RX_HDMI_CKM_RESULT := 3000,
        HDMI_RX_PDEC_ACR_CTS := 148500, HDMI_RX_PDEC_ACR_N := 5644)"]
  by simp

text \<open>
  C9.  Calling \<open>rk628_hdmirx_audio_fifo_init\<close> twice in succession leaves the pair
  (\<open>init_state\<close>, \<open>pre_state\<close>) as one call leaves it: in every starting state both end
  with \<open>init_state = pre_state = 64 * 4 = 256\<close>.
\<close>

theorem fifo_init_idempotent:
  "(init_state (audio_state (rk628_hdmirx_audio_fifo_init (rk628_hdmirx_audio_fifo_init aif))),
    pre_state (audio_state (rk628_hdmirx_audio_fifo_init (rk628_hdmirx_audio_fifo_init aif))))
     = (init_state (audio_state (rk628_hdmirx_audio_fifo_init aif)),
        pre_state (audio_state (rk628_hdmirx_audio_fifo_init aif)))
   \<and> init_state (audio_state (rk628_hdmirx_audio_fifo_init aif)) = INIT_FIFO_STATE * 4
   \<and> pre_state (audio_state (rk628_hdmirx_audio_fifo_init aif)) = INIT_FIFO_STATE * 4
   \<and> INIT_FIFO_STATE * 4 = 256"
  by (simp add: rk628_hdmirx_audio_fifo_init_def rk628_i2c_write_def INIT_FIFO_STATE_def)

text \<open>
  C10.  The public accessors are total on the null handle: \<open>rk628_hdmirx_audio_present\<close>
  returns false and \<open>rk628_hdmirx_audio_fs\<close> returns 0; both only return a value.
\<close>

theorem accessors_null_handle:
  "rk628_hdmirx_audio_present None = False \<and> rk628_hdmirx_audio_fs None = 0"
  by simp

section \<open>The state machine\<close>

lemmas hw_defs = rk628_i2c_write_def rk628_i2c_update_bits_def rk628_clk_set_rate_def
  schedule_delayed_work_audio_def schedule_delayed_work_audio_rate_change_def

lemma or_and_left: "(a OR b) AND a = (a::u32)"
  by (rule bit_eqI) (auto simp add: bit_and_iff bit_or_iff)

lemma or_and_right: "(a OR b) AND b = (b::u32)"
  by (rule bit_eqI) (auto simp add: bit_and_iff bit_or_iff)

lemma or_and_distrib: "(a OR b) AND c = (a AND c) OR (b AND (c::u32))"
  by (rule bit_eqI) (auto simp add: bit_and_iff bit_or_iff)

lemma two_bits_facts:
  assumes "two_bits a b"
  shows "a OR b \<noteq> a" "a OR b \<noteq> b" "a OR b \<noteq> 0" "b OR a \<noteq> a" "b OR a \<noteq> b" "a \<noteq> 0" "b \<noteq> 0"
    "a AND b = 0" "b AND a = 0"
proof -
  from assms have a: "a \<noteq> 0" and b: "b \<noteq> 0" and ab: "a AND b = 0"
    by (simp_all add: two_bits_def)
  show "a OR b \<noteq> a"
  proof
    assume "a OR b = a"
    then have "(a OR b) AND b = a AND b" by simp
    then show False using b ab by (simp add: or_and_right)
  qed
  show "a OR b \<noteq> b"
  proof
    assume "a OR b = b"
    then have "(a OR b) AND a = b AND a" by simp
    then show False using a ab by (simp add: or_and_left and.commute)
  qed
  then show "b OR a \<noteq> b" by (simp add: or.commute)
  from \<open>a OR b \<noteq> a\<close> show "b OR a \<noteq> a" by (simp add: or.commute)
  show "a OR b \<noteq> 0"
  proof
    assume "a OR b = 0"
    then have "(a OR b) AND a = 0" by simp
    then show False using a by (simp add: or_and_left)
  qed
  show "a \<noteq> 0" "b \<noteq> 0" "a AND b = 0" by fact+
  show "b AND a = 0" using ab by (simp add: and.commute)
qed

lemma isr_ctsn_flag:
  "ctsn_flag (audio_state (rk628_csi_isr_ctsn h x aif)) =
     (ctsn_flag (audio_state aif)
        OR (if x AND ACR_N_CHG_ICLR h \<noteq> 0 then ACR_N_CHG_ICLR h else 0))
        OR (if x AND ACR_CTS_CHG_ICLR h \<noteq> 0 then ACR_CTS_CHG_ICLR h else 0)"
  by (simp add: rk628_csi_isr_ctsn_def Let_def hw_defs)

lemma isr_ctsn_dispatches:
  "rate_change_dispatches (rk628_csi_isr_ctsn h x aif) =
     rate_change_dispatches aif +
       (if ctsn_flag (audio_state (rk628_csi_isr_ctsn h x aif))
             = (ACR_N_CHG_ICLR h OR ACR_CTS_CHG_ICLR h) then 1 else 0)"
  by (simp add: rk628_csi_isr_ctsn_def Let_def hw_defs rate_change_dispatches_def)

lemma isr_ctsn_ints_en:
  "ctsn_ints_en (rk628_csi_isr_ctsn h x aif) =
     (if ctsn_flag (audio_state (rk628_csi_isr_ctsn h x aif))
             = (ACR_N_CHG_ICLR h OR ACR_CTS_CHG_ICLR h) then False else ctsn_ints_en aif)"
  by (simp add: rk628_csi_isr_ctsn_def Let_def hw_defs)

lemma flag_without_bit:
  assumes "f AND b = 0" "b \<noteq> 0"
  shows "f \<noteq> b OR c" "f \<noteq> c OR (b::u32)"
proof -
  show "f \<noteq> b OR c"
  proof
    assume "f = b OR c"
    then have "f AND b = b" by (simp add: or_and_left)
    with assms show False by simp
  qed
  then show "f \<noteq> c OR b" by (simp add: or.commute)
qed

lemma isr_ctsn_series_without_N:
  assumes "two_bits (ACR_N_CHG_ICLR h) (ACR_CTS_CHG_ICLR h)"
  shows "ctsn_flag (audio_state aif) AND ACR_N_CHG_ICLR h = 0 \<Longrightarrow>
     \<forall>x\<in>set xs. x AND ACR_N_CHG_ICLR h = 0 \<Longrightarrow>
     rate_change_dispatches (isr_ctsn_series h xs aif) = rate_change_dispatches aif"
proof (induction xs arbitrary: aif)
  case Nil
  then show ?case by (simp add: isr_ctsn_series_def)
next
  case (Cons x xs)
  let ?a = "rk628_csi_isr_ctsn h x aif"
  from Cons.prems have x: "x AND ACR_N_CHG_ICLR h = 0" by simp
  have fl: "ctsn_flag (audio_state ?a) AND ACR_N_CHG_ICLR h = 0"
    using Cons.prems(1) x two_bits_facts(9)[OF assms]
    by (simp add: isr_ctsn_flag or_and_distrib)
  then have "ctsn_flag (audio_state ?a) \<noteq> (ACR_N_CHG_ICLR h OR ACR_CTS_CHG_ICLR h)"
    using flag_without_bit(1) two_bits_facts(6)[OF assms] by blast
  then have d: "rate_change_dispatches ?a = rate_change_dispatches aif"
    by (simp add: isr_ctsn_dispatches)
  have "rate_change_dispatches (isr_ctsn_series h xs ?a) = rate_change_dispatches ?a"
    using Cons.IH[OF fl] Cons.prems(2) by simp
  then show ?case using d by (simp add: isr_ctsn_series_def)
qed

lemma isr_ctsn_series_without_CTS:
  assumes "two_bits (ACR_N_CHG_ICLR h) (ACR_CTS_CHG_ICLR h)"
  shows "ctsn_flag (audio_state aif) AND ACR_CTS_CHG_ICLR h = 0 \<Longrightarrow>
     \<forall>x\<in>set xs. x AND ACR_CTS_CHG_ICLR h = 0 \<Longrightarrow>
     rate_change_dispatches (isr_ctsn_series h xs aif) = rate_change_dispatches aif"
proof (induction xs arbitrary: aif)
  case Nil
  then show ?case by (simp add: isr_ctsn_series_def)
next
  case (Cons x xs)
  let ?a = "rk628_csi_isr_ctsn h x aif"
  from Cons.prems have x: "x AND ACR_CTS_CHG_ICLR h = 0" by simp
  have fl: "ctsn_flag (audio_state ?a) AND ACR_CTS_CHG_ICLR h = 0"
    using Cons.prems(1) x two_bits_facts(8)[OF assms]
    by (simp add: isr_ctsn_flag or_and_distrib)
  then have "ctsn_flag (audio_state ?a) \<noteq> (ACR_N_CHG_ICLR h OR ACR_CTS_CHG_ICLR h)"
    using flag_without_bit(2) two_bits_facts(7)[OF assms] by blast
  then have d: "rate_change_dispatches ?a = rate_change_dispatches aif"
    by (simp add: isr_ctsn_dispatches)
  have "rate_change_dispatches (isr_ctsn_series h xs ?a) = rate_change_dispatches ?a"
    using Cons.IH[OF fl] Cons.prems(2) by simp
  then show ?case using d by (simp add: isr_ctsn_series_def)
qed

text \<open>
  C6.  Starting from a state with no accumulated CTS/N flags, \<open>rk628_csi_isr_ctsn\<close> does
  not dispatch a resync before both the CTS-changed and the N-changed bit have been
  observed: a series of notifications that changes the number of dispatches contains a
  notification with the N bit and one with the CTS bit.  In particular a notification with
  only the CTS bit followed by one with only the N bit dispatches exactly one resync, on the
  second call, and that dispatch clears \<open>ctsn_ints_en\<close>.  The two bits are any two bits
  without a common bit.
\<close>

theorem isr_ctsn_debounce:
  assumes h: "two_bits (ACR_N_CHG_ICLR h) (ACR_CTS_CHG_ICLR h)"
    and start: "ctsn_flag (audio_state aif) = 0"
  shows "(rate_change_dispatches (isr_ctsn_series h xs aif) \<noteq> rate_change_dispatches aif \<longrightarrow>
            (\<exists>x\<in>set xs. x AND ACR_N_CHG_ICLR h \<noteq> 0)
          \<and> (\<exists>x\<in>set xs. x AND ACR_CTS_CHG_ICLR h \<noteq> 0))
     \<and> (x1 AND ACR_CTS_CHG_ICLR h \<noteq> 0 \<and> x1 AND ACR_N_CHG_ICLR h = 0
          \<and> x2 AND ACR_N_CHG_ICLR h \<noteq> 0 \<and> x2 AND ACR_CTS_CHG_ICLR h = 0 \<longrightarrow>
            rate_change_dispatches (rk628_csi_isr_ctsn h x1 aif) = rate_change_dispatches aif
          \<and> ctsn_ints_en (rk628_csi_isr_ctsn h x1 aif) = ctsn_ints_en aif
          \<and> rate_change_dispatches (rk628_csi_isr_ctsn h x2 (rk628_csi_isr_ctsn h x1 aif))
              = rate_change_dispatches aif + 1
          \<and> \<not> ctsn_ints_en (rk628_csi_isr_ctsn h x2 (rk628_csi_isr_ctsn h x1 aif)))"
proof (intro conjI impI)
  assume d: "rate_change_dispatches (isr_ctsn_series h xs aif) \<noteq> rate_change_dispatches aif"
  show "\<exists>x\<in>set xs. x AND ACR_N_CHG_ICLR h \<noteq> 0"
    using isr_ctsn_series_without_N[OF h, of aif xs] d start by auto
  show "\<exists>x\<in>set xs. x AND ACR_CTS_CHG_ICLR h \<noteq> 0"
    using isr_ctsn_series_without_CTS[OF h, of aif xs] d start by auto
next
  assume x: "x1 AND ACR_CTS_CHG_ICLR h \<noteq> 0 \<and> x1 AND ACR_N_CHG_ICLR h = 0
          \<and> x2 AND ACR_N_CHG_ICLR h \<noteq> 0 \<and> x2 AND ACR_CTS_CHG_ICLR h = 0"
  have f1: "ctsn_flag (audio_state (rk628_csi_isr_ctsn h x1 aif)) = ACR_CTS_CHG_ICLR h"
    using x start by (simp add: isr_ctsn_flag)
  have f2: "ctsn_flag (audio_state (rk628_csi_isr_ctsn h x2 (rk628_csi_isr_ctsn h x1 aif)))
      = ACR_N_CHG_ICLR h OR ACR_CTS_CHG_ICLR h"
    using x f1 by (simp add: isr_ctsn_flag or.commute)
  show "rate_change_dispatches (rk628_csi_isr_ctsn h x1 aif) = rate_change_dispatches aif"
    using f1 two_bits_facts(2)[OF h] by (simp add: isr_ctsn_dispatches)
  show "ctsn_ints_en (rk628_csi_isr_ctsn h x1 aif) = ctsn_ints_en aif"
    using f1 two_bits_facts(2)[OF h] by (simp add: isr_ctsn_ints_en)
  show "rate_change_dispatches (rk628_csi_isr_ctsn h x2 (rk628_csi_isr_ctsn h x1 aif))
      = rate_change_dispatches aif + 1"
    using f1 f2 two_bits_facts(2)[OF h] by (simp add: isr_ctsn_dispatches)
  show "\<not> ctsn_ints_en (rk628_csi_isr_ctsn h x2 (rk628_csi_isr_ctsn h x1 aif))"
    using f2 by (simp add: isr_ctsn_ints_en)
qed

lemma rk628_i2c_write_fields [simp]:
  "audio_state (rk628_i2c_write r v aif) = audio_state aif"
  "i2s_enabled_default (rk628_i2c_write r v aif) = i2s_enabled_default aif"
  "i2s_enabled (rk628_i2c_write r v aif) = i2s_enabled aif"
  "fifo_ints_en (rk628_i2c_write r v aif) = fifo_ints_en aif"
  "ctsn_ints_en (rk628_i2c_write r v aif) = ctsn_ints_en aif"
  "audio_present (rk628_i2c_write r v aif) = audio_present aif"
  "rk628f (rk628_i2c_write r v aif) = rk628f aif"
  "hw_ops (rk628_i2c_write r v aif) = hw_ops aif @ [I2c_write r v]"
  by (simp_all add: rk628_i2c_write_def)

lemma rk628_i2c_update_bits_fields [simp]:
  "audio_state (rk628_i2c_update_bits r m v aif) = audio_state aif"
  "i2s_enabled_default (rk628_i2c_update_bits r m v aif) = i2s_enabled_default aif"
  "i2s_enabled (rk628_i2c_update_bits r m v aif) = i2s_enabled aif"
  "fifo_ints_en (rk628_i2c_update_bits r m v aif) = fifo_ints_en aif"
  "ctsn_ints_en (rk628_i2c_update_bits r m v aif) = ctsn_ints_en aif"
  "audio_present (rk628_i2c_update_bits r m v aif) = audio_present aif"
  "rk628f (rk628_i2c_update_bits r m v aif) = rk628f aif"
  "hw_ops (rk628_i2c_update_bits r m v aif) = hw_ops aif @ [I2c_update_bits r m v]"
  by (simp_all add: rk628_i2c_update_bits_def)

lemma rk628_clk_set_rate_fields [simp]:
  "audio_state (rk628_clk_set_rate rate aif) = audio_state aif"
  "i2s_enabled_default (rk628_clk_set_rate rate aif) = i2s_enabled_default aif"
  "i2s_enabled (rk628_clk_set_rate rate aif) = i2s_enabled aif"
  "fifo_ints_en (rk628_clk_set_rate rate aif) = fifo_ints_en aif"
  "ctsn_ints_en (rk628_clk_set_rate rate aif) = ctsn_ints_en aif"
  "audio_present (rk628_clk_set_rate rate aif) = audio_present aif"
  "rk628f (rk628_clk_set_rate rate aif) = rk628f aif"
  "hw_ops (rk628_clk_set_rate rate aif) = hw_ops aif @ [Clk_set_rate rate]"
  by (simp_all add: rk628_clk_set_rate_def)

lemma schedule_delayed_work_audio_fields [simp]:
  "audio_state (schedule_delayed_work_audio ms aif) = audio_state aif"
  "i2s_enabled_default (schedule_delayed_work_audio ms aif) = i2s_enabled_default aif"
  "i2s_enabled (schedule_delayed_work_audio ms aif) = i2s_enabled aif"
  "fifo_ints_en (schedule_delayed_work_audio ms aif) = fifo_ints_en aif"
  "ctsn_ints_en (schedule_delayed_work_audio ms aif) = ctsn_ints_en aif"
  "audio_present (schedule_delayed_work_audio ms aif) = audio_present aif"
  "rk628f (schedule_delayed_work_audio ms aif) = rk628f aif"
  "hw_ops (schedule_delayed_work_audio ms aif) = hw_ops aif @ [Schedule_audio ms]"
  by (simp_all add: schedule_delayed_work_audio_def)

lemma schedule_delayed_work_audio_rate_change_fields [simp]:
  "audio_state (schedule_delayed_work_audio_rate_change ms aif) = audio_state aif"
  "i2s_enabled_default (schedule_delayed_work_audio_rate_change ms aif) = i2s_enabled_default aif"
  "i2s_enabled (schedule_delayed_work_audio_rate_change ms aif) = i2s_enabled aif"
  "fifo_ints_en (schedule_delayed_work_audio_rate_change ms aif) = fifo_ints_en aif"
  "ctsn_ints_en (schedule_delayed_work_audio_rate_change ms aif) = ctsn_ints_en aif"
  "audio_present (schedule_delayed_work_audio_rate_change ms aif) = audio_present aif"
  "rk628f (schedule_delayed_work_audio_rate_change ms aif) = rk628f aif"
  "hw_ops (schedule_delayed_work_audio_rate_change ms aif)
     = hw_ops aif @ [Schedule_rate_change ms]"
  by (simp_all add: schedule_delayed_work_audio_rate_change_def)


lemma fs_audio_fifo_init [simp]:
  "fs_audio (audio_state (rk628_hdmirx_audio_fifo_init aif)) = fs_audio (audio_state aif)"
  by (simp add: rk628_hdmirx_audio_fifo_init_def)

lemma fs_audio_fifo_initd [simp]:
  "fs_audio (audio_state (rk628_hdmirx_audio_fifo_initd aif)) = fs_audio (audio_state aif)"
  by (simp add: rk628_hdmirx_audio_fifo_initd_def)

lemma fs_audio_set_fs [simp]:
  "fs_audio (audio_state (rk628_hdmirx_audio_set_fs fs aif)) = fs"
  by (simp add: rk628_hdmirx_audio_set_fs_def Let_def)

lemma fs_audio_inc_rate [simp]:
  "fs_audio (audio_state (rk628_hdmirx_audio_clk_inc_rate d aif)) = fs_audio (audio_state aif)"
  by (simp add: rk628_hdmirx_audio_clk_inc_rate_def Let_def)

lemma fs_audio_enable [simp]:
  "fs_audio (audio_state (rk628_hdmirx_audio_enable h rd aif)) = fs_audio (audio_state aif)"
  by (simp add: rk628_hdmirx_audio_enable_def Let_def)

lemma fs_audio_setup:
  "fs_audio (audio_state (rk628_hdmirx_audio_setup h aif)) = 0"
  by (simp add: rk628_hdmirx_audio_setup_def rk628_hdmirx_audio_clk_set_rate_def Let_def)

lemma fs_audio_v2_adjust [simp]:
  "fs_audio (audio_state (delayed_work_audio_v2_adjust h rd l i p d aif))
     = fs_audio (audio_state aif)"
  by (simp add: delayed_work_audio_v2_adjust_def Let_def)

lemma fs_audio_tick_v2:
  "fs_audio (audio_state (rk628_csi_delayed_work_audio_v2 h rd aif)) = fs_audio (audio_state aif)
   \<or> is_validfs (fs_audio (audio_state (rk628_csi_delayed_work_audio_v2 h rd aif)))"
  by (simp add: rk628_csi_delayed_work_audio_v2_def Let_def)

lemma fs_audio_tick:
  "fs_audio (audio_state (rk628_csi_delayed_work_audio h rd aif)) = fs_audio (audio_state aif)
   \<or> is_validfs (fs_audio (audio_state (rk628_csi_delayed_work_audio h rd aif)))"
  by (simp add: rk628_csi_delayed_work_audio_def Let_def)

lemma fs_audio_rate_change:
  "fs_audio (audio_state (rk628_csi_delayed_work_audio_rate_change h rd aif))
     = fs_audio (audio_state aif)
   \<or> is_validfs (fs_audio (audio_state (rk628_csi_delayed_work_audio_rate_change h rd aif)))"
  by (simp add: rk628_csi_delayed_work_audio_rate_change_def Let_def)

lemma fs_audio_isr_ctsn:
  "fs_audio (audio_state (rk628_csi_isr_ctsn h x aif)) = fs_audio (audio_state aif)"
  by (simp add: rk628_csi_isr_ctsn_def Let_def)

lemma fs_audio_isr_fifoints:
  "fs_audio (audio_state (rk628_csi_isr_fifoints h x aif)) = fs_audio (audio_state aif)"
  by (simp add: rk628_csi_isr_fifoints_def Let_def)

text \<open>
  C3.  In every state reachable from setup by the periodic works, the resync pass and the
  two notifications, the tracked sample rate \<open>fs_audio\<close> is 0 or one of 32000, 44100,
  48000, 88200, 96000, 176400, 192000, 768000: setup assigns 0, and every other operation
  leaves the field alone or assigns a value that passed \<open>is_validfs\<close>.
\<close>

theorem fs_audio_supported:
  assumes "aif \<in> reachable h"
  shows "(fs_audio (audio_state aif) = 0
          \<or> fs_audio (audio_state aif)
               \<in> {32000, 44100, 48000, 88200, 96000, 176400, 192000, 768000})
     \<and> (fs_audio (audio_state aif) = 0 \<or> is_validfs (fs_audio (audio_state aif)))"
proof -
  have "fs_audio (audio_state aif) = 0 \<or> is_validfs (fs_audio (audio_state aif))"
    using assms
  proof (induction rule: reachable.induct)
    case (after_setup aif)
    then show ?case by (simp add: fs_audio_setup)
  next
    case (tick_v2 aif rd)
    then show ?case using fs_audio_tick_v2[of h rd aif] by auto
  next
    case (tick aif rd)
    then show ?case using fs_audio_tick[of h rd aif] by auto
  next
    case (resync aif rd)
    then show ?case using fs_audio_rate_change[of h rd aif] by auto
  next
    case (isr_ctsn aif pdec_ints)
    then show ?case by (simp add: fs_audio_isr_ctsn)
  next
    case (isr_fifoints aif fifo_ints)
    then show ?case by (simp add: fs_audio_isr_fifoints)
  qed
  then show ?thesis by (simp add: is_validfs_iff)
qed

lemma inc_rate_fields [simp]:
  "audio_state (rk628_hdmirx_audio_clk_inc_rate d aif)
     = (audio_state aif)\<lparr>hdmirx_aud_clkrate := hdmirx_aud_clkrate (audio_state aif) + d\<rparr>"
  "audio_present (rk628_hdmirx_audio_clk_inc_rate d aif) = audio_present aif"
  "hw_ops (rk628_hdmirx_audio_clk_inc_rate d aif)
     = hw_ops aif @ [Clk_set_rate (hdmirx_aud_clkrate (audio_state aif) + d)]"
  by (simp_all add: rk628_hdmirx_audio_clk_inc_rate_def Let_def)

lemma v2_adjust_nudge:
  "nudge_outcome
     (l \<noteq> 0 \<and> 16 < sint (l - i) \<and> 0 < sint (l - p))
     (l \<noteq> 0 \<and> sint (l - i) < - 16 \<and> sint (l - p) < 0)
     aif (delayed_work_audio_v2_adjust h rd l i p d aif)"
proof -
  consider (zero) "l = 0"
    | (up) "l \<noteq> 0" "16 < sint (l - i) \<and> 0 < sint (l - p)"
    | (down) "l \<noteq> 0" "\<not> (16 < sint (l - i) \<and> 0 < sint (l - p))"
        "sint (l - i) < - 16 \<and> sint (l - p) < 0"
    | (none) "l \<noteq> 0" "\<not> (16 < sint (l - i) \<and> 0 < sint (l - p))"
        "\<not> (sint (l - i) < - 16 \<and> sint (l - p) < 0)"
    by blast
  then show ?thesis
  proof cases
    case zero
    then show ?thesis
      by (simp add: delayed_work_audio_v2_adjust_def nudge_outcome_def clk_ops_since_def Let_def)
  next
    case up
    then show ?thesis
      by (simp add: delayed_work_audio_v2_adjust_def nudge_outcome_def clk_ops_since_def Let_def)
  next
    case down
    then show ?thesis
      by (simp add: delayed_work_audio_v2_adjust_def nudge_outcome_def clk_ops_since_def Let_def)
  next
    case none
    then show ?thesis
      by (simp add: delayed_work_audio_v2_adjust_def nudge_outcome_def clk_ops_since_def Let_def)
  qed
qed

lemma dead_band_no_wrap:
  assumes "\<bar>sint (l::s32) - sint (i::s32)\<bar> \<le> 16"
  shows "\<not> 16 < sint (l - i)" "\<not> sint (l - i) < - 16"
proof -
  have "\<not> sint l - sint i < - 2147483648" "sint l - sint i < 2147483648"
    using assms by linarith+
  then have "sint (l - i) = sint l - sint i"
    by (simp add: sint_sub32)
  with assms show "\<not> 16 < sint (l - i)" "\<not> sint (l - i) < - 16" by simp_all
qed

lemma sint_sub32_exact:
  assumes "- 2147483648 \<le> sint (a::s32) - sint (b::s32)" "sint a - sint b < 2147483648"
  shows "sint (a - b) = sint a - sint b"
  using assms by (simp add: sint_sub32)

text \<open>
  C7.  A periodic work that finds a valid and stable sample rate (in the newer variant also:
  no FIFO error bit pending) nudges the clock as follows, \<open>l\<close> being the FIFO fill level
  read, \<open>i\<close> the initial and \<open>p\<close> the previous level: by +10 Hz only if \<open>l - i > 16\<close>
  and \<open>l - p > 0\<close>, by -10 Hz only if \<open>l - i < -16\<close> and \<open>l - p < 0\<close>, else not at
  all.  The differences are the 32-bit differences of the code, which are the differences
  of the integers whenever those fit in 32 bits.  For every level with \<open>|l - i| \<le> 16\<close>,
  the boundary 16 included, no nudge occurs.
\<close>

theorem tick_nudge_dead_band:
  fixes h :: hdmirx_h and rd :: i2c_regs and aif :: rk628_audioinfo
  defines "l \<equiv> rd HDMI_RX_AUD_FIFO_FILLSTS1"
    and "i \<equiv> init_state (audio_state aif)"
    and "p \<equiv> pre_state (audio_state aif)"
  assumes valid: "is_validfs (underscore_rk628_hdmirx_audio_fs rd)"
    and stable: "\<not> 1000 < sint (abs_int (underscore_rk628_hdmirx_audio_fs rd
                      - fs_audio (audio_state aif)))"
  shows "(rd HDMI_RX_AUD_FIFO_ISTS AND (AFIF_UNDERFL_ISTS h OR AFIF_OVERFL_ISTS h) = 0 \<longrightarrow>
           nudge_outcome
             (l \<noteq> 0 \<and> 16 < sint (l - i) \<and> 0 < sint (l - p))
             (l \<noteq> 0 \<and> sint (l - i) < - 16 \<and> sint (l - p) < 0)
             aif (rk628_csi_delayed_work_audio_v2 h rd aif)
         \<and> (- 2147483648 \<le> sint l - sint i \<and> sint l - sint i < 2147483648
              \<and> - 2147483648 \<le> sint l - sint p \<and> sint l - sint p < 2147483648 \<longrightarrow>
              nudge_outcome
                (l \<noteq> 0 \<and> 16 < sint l - sint i \<and> 0 < sint l - sint p)
                (l \<noteq> 0 \<and> sint l - sint i < - 16 \<and> sint l - sint p < 0)
                aif (rk628_csi_delayed_work_audio_v2 h rd aif))
         \<and> (\<bar>sint l - sint i\<bar> \<le> 16 \<longrightarrow>
              nudge_outcome False False aif (rk628_csi_delayed_work_audio_v2 h rd aif)))
     \<and> (audio_enable (audio_state aif) \<longrightarrow>
           nudge_outcome
             (16 < sint (l - i) \<and> 0 < sint (l - p))
             (l \<noteq> 0 \<and> sint (l - i) < - 16 \<and> sint (l - p) < 0)
             aif (rk628_csi_delayed_work_audio h rd aif)
         \<and> (- 2147483648 \<le> sint l - sint i \<and> sint l - sint i < 2147483648
              \<and> - 2147483648 \<le> sint l - sint p \<and> sint l - sint p < 2147483648 \<longrightarrow>
              nudge_outcome
                (16 < sint l - sint i \<and> 0 < sint l - sint p)
                (l \<noteq> 0 \<and> sint l - sint i < - 16 \<and> sint l - sint p < 0)
                aif (rk628_csi_delayed_work_audio h rd aif))
         \<and> (\<bar>sint l - sint i\<bar> \<le> 16 \<longrightarrow>
              nudge_outcome False False aif (rk628_csi_delayed_work_audio h rd aif)))"
proof -
  have v2: "nudge_outcome
             (l \<noteq> 0 \<and> 16 < sint (l - i) \<and> 0 < sint (l - p))
             (l \<noteq> 0 \<and> sint (l - i) < - 16 \<and> sint (l - p) < 0)
             aif (rk628_csi_delayed_work_audio_v2 h rd aif)"
    if noerr: "rd HDMI_RX_AUD_FIFO_ISTS AND (AFIF_UNDERFL_ISTS h OR AFIF_OVERFL_ISTS h) = 0"
  proof -
    have "rk628_csi_delayed_work_audio_v2 h rd aif
        = delayed_work_audio_v2_adjust h rd l i p 500 aif"
      using noerr valid stable
      by (simp add: rk628_csi_delayed_work_audio_v2_def Let_def l_def i_def p_def)
    then show ?thesis by (simp only: v2_adjust_nudge)
  qed
  have v1: "nudge_outcome
             (16 < sint (l - i) \<and> 0 < sint (l - p))
             (l \<noteq> 0 \<and> sint (l - i) < - 16 \<and> sint (l - p) < 0)
             aif (rk628_csi_delayed_work_audio h rd aif)"
    if en: "audio_enable (audio_state aif)"
    using en valid stable
    by (simp add: rk628_csi_delayed_work_audio_def nudge_outcome_def clk_ops_since_def
        Let_def l_def i_def p_def)
  have exact: "sint (l - i) = sint l - sint i \<and> sint (l - p) = sint l - sint p"
    if "- 2147483648 \<le> sint l - sint i \<and> sint l - sint i < 2147483648
        \<and> - 2147483648 \<le> sint l - sint p \<and> sint l - sint p < 2147483648"
    using that by (simp add: sint_sub32_exact)
  have band: "\<not> 16 < sint (l - i) \<and> \<not> sint (l - i) < - 16" if "\<bar>sint l - sint i\<bar> \<le> 16"
    using dead_band_no_wrap [OF that] by simp
  show ?thesis
  proof (intro conjI impI)
    assume n: "rd HDMI_RX_AUD_FIFO_ISTS AND (AFIF_UNDERFL_ISTS h OR AFIF_OVERFL_ISTS h) = 0"
    show "nudge_outcome
             (l \<noteq> 0 \<and> 16 < sint (l - i) \<and> 0 < sint (l - p))
             (l \<noteq> 0 \<and> sint (l - i) < - 16 \<and> sint (l - p) < 0)
             aif (rk628_csi_delayed_work_audio_v2 h rd aif)"
      by (rule v2 [OF n])
    show "nudge_outcome
                (l \<noteq> 0 \<and> 16 < sint l - sint i \<and> 0 < sint l - sint p)
                (l \<noteq> 0 \<and> sint l - sint i < - 16 \<and> sint l - sint p < 0)
                aif (rk628_csi_delayed_work_audio_v2 h rd aif)"
      if "- 2147483648 \<le> sint l - sint i \<and> sint l - sint i < 2147483648
          \<and> - 2147483648 \<le> sint l - sint p \<and> sint l - sint p < 2147483648"
      using v2 [OF n] exact [OF that] by simp
    show "nudge_outcome False False aif (rk628_csi_delayed_work_audio_v2 h rd aif)"
      if "\<bar>sint l - sint i\<bar> \<le> 16"
      using v2 [OF n] band [OF that] by simp
  next
    assume en: "audio_enable (audio_state aif)"
    show "nudge_outcome
             (16 < sint (l - i) \<and> 0 < sint (l - p))
             (l \<noteq> 0 \<and> sint (l - i) < - 16 \<and> sint (l - p) < 0)
             aif (rk628_csi_delayed_work_audio h rd aif)"
      by (rule v1 [OF en])
    show "nudge_outcome
                (16 < sint l - sint i \<and> 0 < sint l - sint p)
                (l \<noteq> 0 \<and> sint l - sint i < - 16 \<and> sint l - sint p < 0)
                aif (rk628_csi_delayed_work_audio h rd aif)"
      if "- 2147483648 \<le> sint l - sint i \<and> sint l - sint i < 2147483648
          \<and> - 2147483648 \<le> sint l - sint p \<and> sint l - sint p < 2147483648"
      using v1 [OF en] exact [OF that] by simp
    show "nudge_outcome False False aif (rk628_csi_delayed_work_audio h rd aif)"
      if "\<bar>sint l - sint i\<bar> \<le> 16"
      using v1 [OF en] band [OF that] by simp
  qed
qed

lemma fifo_initd_fields [simp]:
  "audio_state (rk628_hdmirx_audio_fifo_initd aif)
     = (audio_state aif)\<lparr>init_state := INIT_FIFO_STATE * 4, pre_state := INIT_FIFO_STATE * 4\<rparr>"
  "hw_ops (rk628_hdmirx_audio_fifo_initd aif) = hw_ops aif @
     [I2c_write HDMI_RX_AUD_FIFO_ICLR (Val 0x1f),
      I2c_update_bits HDMI_RX_AUD_FIFO_TH [AFIF_TH_START] [(AFIF_TH_START, 192)],
      I2c_write HDMI_RX_AUD_FIFO_CTRL (Val 0x10001),
      I2c_write HDMI_RX_AUD_FIFO_CTRL (Val 0x10000),
      I2c_write HDMI_RX_AUD_FIFO_CTRL (Val 0x10001),
      I2c_write HDMI_RX_AUD_FIFO_CTRL (Val 0x10000),
      I2c_update_bits HDMI_RX_AUD_FIFO_TH [AFIF_TH_START]
        [(AFIF_TH_START, unat INIT_FIFO_STATE)]]"
  by (simp_all add: rk628_hdmirx_audio_fifo_initd_def)

lemma fifo_init_fields [simp]:
  "audio_state (rk628_hdmirx_audio_fifo_init aif)
     = (audio_state aif)\<lparr>init_state := INIT_FIFO_STATE * 4, pre_state := INIT_FIFO_STATE * 4\<rparr>"
  "hw_ops (rk628_hdmirx_audio_fifo_init aif) = hw_ops aif @
     [I2c_write HDMI_RX_AUD_FIFO_ICLR (Val 0x1f),
      I2c_write HDMI_RX_AUD_FIFO_CTRL (Val 0x10001),
      I2c_write HDMI_RX_AUD_FIFO_CTRL (Val 0x10000)]"
  by (simp_all add: rk628_hdmirx_audio_fifo_init_def)

lemma set_fs_fields [simp]:
  "audio_state (rk628_hdmirx_audio_set_fs fs aif)
     = (audio_state aif)\<lparr>hdmirx_aud_clkrate := fs * 128, fs_audio := fs\<rparr>"
  "hw_ops (rk628_hdmirx_audio_set_fs fs aif) = hw_ops aif @ [Clk_set_rate (fs * 128)]"
  by (simp_all add: rk628_hdmirx_audio_set_fs_def Let_def)

lemma fifo_initd_calls_initd [simp]:
  "fifo_initd_calls (rk628_hdmirx_audio_fifo_initd aif) = fifo_initd_calls aif + 1"
  by (simp add: fifo_initd_calls_def INIT_FIFO_STATE_def)

lemma fifo_initd_calls_set_fs [simp]:
  "fifo_initd_calls (rk628_hdmirx_audio_set_fs fs aif) = fifo_initd_calls aif"
  by (simp add: fifo_initd_calls_def)

lemma dispatches_initd [simp]:
  "rate_change_dispatches (rk628_hdmirx_audio_fifo_initd aif) = rate_change_dispatches aif"
  by (simp add: rate_change_dispatches_def)

lemma dispatches_set_fs [simp]:
  "rate_change_dispatches (rk628_hdmirx_audio_set_fs fs aif) = rate_change_dispatches aif"
  by (simp add: rate_change_dispatches_def)

lemma isr_fifoints_confirmed:
  assumes "fifo_flag_seen h x aif = AFIF_OVERFL_ISTS h OR AFIF_UNDERFL_ISTS h"
  shows "fifo_flag (audio_state (rk628_csi_isr_fifoints h x aif)) = 0"
    "fifo_int (audio_state (rk628_csi_isr_fifoints h x aif))"
    "rate_change_dispatches (rk628_csi_isr_fifoints h x aif) = rate_change_dispatches aif + 1"
    "fifo_initd_calls (rk628_csi_isr_fifoints h x aif) = fifo_initd_calls aif"
    "ctsn_flag (audio_state (rk628_csi_isr_fifoints h x aif)) = ctsn_flag (audio_state aif)"
  using assms
  by (auto simp add: rk628_csi_isr_fifoints_def fifo_flag_seen_def Let_def
      rate_change_dispatches_def fifo_initd_calls_def split: if_splits)

lemma isr_fifoints_pending:
  assumes "fifo_flag_seen h x aif \<noteq> AFIF_OVERFL_ISTS h OR AFIF_UNDERFL_ISTS h"
  shows "fifo_flag (audio_state (rk628_csi_isr_fifoints h x aif)) = fifo_flag_seen h x aif"
    "fifo_int (audio_state (rk628_csi_isr_fifoints h x aif)) = fifo_int (audio_state aif)"
    "rate_change_dispatches (rk628_csi_isr_fifoints h x aif) = rate_change_dispatches aif"
    "fifo_initd_calls (rk628_csi_isr_fifoints h x aif) = fifo_initd_calls aif"
    "ctsn_flag (audio_state (rk628_csi_isr_fifoints h x aif)) = ctsn_flag (audio_state aif)"
  using assms
  by (auto simp add: rk628_csi_isr_fifoints_def fifo_flag_seen_def Let_def
      rate_change_dispatches_def fifo_initd_calls_def split: if_splits)

lemma rate_change_no_ctsn:
  assumes "ctsn_flag (audio_state aif) \<noteq> (ACR_N_CHG_ICLR h OR ACR_CTS_CHG_ICLR h)"
  shows "fifo_int (audio_state aif) \<Longrightarrow>
       fifo_initd_calls (rk628_csi_delayed_work_audio_rate_change h rd aif)
         = fifo_initd_calls aif + 1"
    "\<not> fifo_int (audio_state aif) \<Longrightarrow>
       fifo_initd_calls (rk628_csi_delayed_work_audio_rate_change h rd aif)
         = fifo_initd_calls aif"
    "rate_change_dispatches (rk628_csi_delayed_work_audio_rate_change h rd aif)
       = rate_change_dispatches aif"
    "\<not> fifo_int (audio_state (rk628_csi_delayed_work_audio_rate_change h rd aif))"
    "fifo_flag (audio_state (rk628_csi_delayed_work_audio_rate_change h rd aif))
       = fifo_flag (audio_state aif)"
    "ctsn_flag (audio_state (rk628_csi_delayed_work_audio_rate_change h rd aif))
       = ctsn_flag (audio_state aif)"
  using assms
  by (simp_all add: rk628_csi_delayed_work_audio_rate_change_def Let_def
      fifo_initd_calls_def rate_change_dispatches_def INIT_FIFO_STATE_def)

text \<open>The scenario of overflow, underflow, resync pass and a further single bit, from
  any state with no CTS/N-ready event pending.\<close>

lemma fifo_glitch_scenario:
  fixes h :: hdmirx_h and aif :: rk628_audioinfo and x1 x2 x3 :: u32 and rd rd' :: i2c_regs
  defines "s1 \<equiv> rk628_csi_isr_fifoints h x1 aif"
  defines "s2 \<equiv> rk628_csi_isr_fifoints h x2 s1"
  defines "s3 \<equiv> rk628_csi_delayed_work_audio_rate_change h rd s2"
  defines "s4 \<equiv> rk628_csi_isr_fifoints h x3 s3"
  assumes bits: "two_bits (AFIF_OVERFL_ISTS h) (AFIF_UNDERFL_ISTS h)"
    and start: "fifo_flag (audio_state aif) = 0"
    and no_ctsn: "ctsn_flag (audio_state aif) \<noteq> (ACR_N_CHG_ICLR h OR ACR_CTS_CHG_ICLR h)"
    and x1: "x1 AND AFIF_OVERFL_ISTS h \<noteq> 0" "x1 AND AFIF_UNDERFL_ISTS h = 0"
    and x2: "x2 AND AFIF_UNDERFL_ISTS h \<noteq> 0" "x2 AND AFIF_OVERFL_ISTS h = 0"
    and x3: "x3 AND AFIF_OVERFL_ISTS h = 0 \<or> x3 AND AFIF_UNDERFL_ISTS h = 0"
  shows "rate_change_dispatches s1 = rate_change_dispatches aif
     \<and> rate_change_dispatches s2 = rate_change_dispatches aif + 1
     \<and> fifo_flag (audio_state s2) = 0 \<and> fifo_int (audio_state s2)
     \<and> fifo_initd_calls s2 = fifo_initd_calls aif
     \<and> fifo_initd_calls s3 = fifo_initd_calls aif + 1
     \<and> rate_change_dispatches s3 = rate_change_dispatches aif + 1
     \<and> fifo_flag (audio_state s3) = 0 \<and> \<not> fifo_int (audio_state s3)
     \<and> rate_change_dispatches s4 = rate_change_dispatches s3
     \<and> \<not> fifo_int (audio_state s4)
     \<and> fifo_initd_calls s4 = fifo_initd_calls s3
     \<and> fifo_initd_calls (rk628_csi_delayed_work_audio_rate_change h rd' s4)
           = fifo_initd_calls s3"
proof -
  note b = two_bits_facts[OF bits]
  have seen1: "fifo_flag_seen h x1 aif = AFIF_OVERFL_ISTS h"
    using start x1 by (simp add: fifo_flag_seen_def)
  then have p1: "fifo_flag_seen h x1 aif \<noteq> AFIF_OVERFL_ISTS h OR AFIF_UNDERFL_ISTS h"
    using b(1) by simp
  note r1 = isr_fifoints_pending[OF p1, folded s1_def]
  have seen2: "fifo_flag_seen h x2 s1 = AFIF_OVERFL_ISTS h OR AFIF_UNDERFL_ISTS h"
    using r1(1) seen1 x2 by (simp add: fifo_flag_seen_def)
  note r2 = isr_fifoints_confirmed[OF seen2, folded s2_def]
  have c2: "ctsn_flag (audio_state s2) \<noteq> (ACR_N_CHG_ICLR h OR ACR_CTS_CHG_ICLR h)"
    using no_ctsn r1(5) r2(5) by simp
  note r3 = rate_change_no_ctsn[OF c2, of rd, folded s3_def]
  have f3: "fifo_flag (audio_state s3) = 0" using r3(5) r2(1) by simp
  have seen3: "fifo_flag_seen h x3 s3 \<noteq> AFIF_OVERFL_ISTS h OR AFIF_UNDERFL_ISTS h"
    using x3 f3 b by (auto simp add: fifo_flag_seen_def)
  note r4 = isr_fifoints_pending[OF seen3, folded s4_def]
  have c4: "ctsn_flag (audio_state s4) \<noteq> (ACR_N_CHG_ICLR h OR ACR_CTS_CHG_ICLR h)"
    using c2 r3(6) r4(5) by simp
  have i4: "\<not> fifo_int (audio_state s4)" using r4(2) r3(4) by simp
  note r5 = rate_change_no_ctsn(2)[OF c4 i4, of rd']
  show ?thesis
    using r1 r2 r3(1)[OF r2(2)] r3(3,4) f3 r4 i4 r5 by simp
qed

lemma sample_regs_fs: "underscore_rk628_hdmirx_audio_fs (sample_regs ists fill) = 44100"
  by (simp add: sample_regs_def underscore_rk628_hdmirx_audio_fs_def tmdsclk_of_def div_u64_def
      find_closest_fs_unfold abs_int_def is_validfs_iff)

lemma sample_regs_read [simp]:
  "sample_regs ists fill HDMI_RX_AUD_FIFO_ISTS = ists"
  "sample_regs ists fill HDMI_RX_AUD_FIFO_FILLSTS1 = fill"
  by (simp_all add: sample_regs_def)

lemma setup_audio_state:
  "audio_state (rk628_hdmirx_audio_setup h aif) =
     (audio_state aif)\<lparr>ctsn_flag := 0, fs_audio := 0, pre_state := 0,
        init_state := INIT_FIFO_STATE * 4, fifo_int := False, audio_enable := False,
        hdmirx_aud_clkrate := 5644800\<rparr>"
  by (simp add: rk628_hdmirx_audio_setup_def rk628_hdmirx_audio_clk_set_rate_def Let_def)

lemma setup_fifo_initd_calls:
  "fifo_initd_calls (rk628_hdmirx_audio_setup h aif) = fifo_initd_calls aif"
  by (simp add: rk628_hdmirx_audio_setup_def rk628_hdmirx_audio_clk_set_rate_def Let_def
      fifo_initd_calls_def)

theorem fs_audio_supported_witness:
  "rk628_csi_delayed_work_audio sample_h (sample_regs 0 0)
       (rk628_hdmirx_audio_setup sample_h zeroed_aif) \<in> reachable sample_h
   \<and> fs_audio (audio_state (rk628_csi_delayed_work_audio sample_h (sample_regs 0 0)
       (rk628_hdmirx_audio_setup sample_h zeroed_aif))) = 44100"
proof -
  have r: "rk628_csi_delayed_work_audio sample_h (sample_regs 0 0)
       (rk628_hdmirx_audio_setup sample_h zeroed_aif) \<in> reachable sample_h"
    by (intro reachable.tick reachable.after_setup)
  have "fs_audio (audio_state (rk628_csi_delayed_work_audio sample_h (sample_regs 0 0)
       (rk628_hdmirx_audio_setup sample_h zeroed_aif))) = 44100"
    by (simp add: rk628_csi_delayed_work_audio_def sample_regs_fs is_validfs_iff Let_def
        setup_audio_state)
  with fs_audio_supported [OF r] r show ?thesis by simp
qed

theorem isr_ctsn_debounce_witness:
  "two_bits (ACR_N_CHG_ICLR sample_h) (ACR_CTS_CHG_ICLR sample_h)
   \<and> ctsn_flag (audio_state zeroed_aif) = 0
   \<and> rate_change_dispatches (rk628_csi_isr_ctsn sample_h 0x400000 zeroed_aif)
        = rate_change_dispatches zeroed_aif
   \<and> rate_change_dispatches
        (rk628_csi_isr_ctsn sample_h 0x800000 (rk628_csi_isr_ctsn sample_h 0x400000 zeroed_aif))
        = rate_change_dispatches zeroed_aif + 1
   \<and> \<not> ctsn_ints_en
        (rk628_csi_isr_ctsn sample_h 0x800000 (rk628_csi_isr_ctsn sample_h 0x400000 zeroed_aif))"
proof -
  have b: "two_bits (ACR_N_CHG_ICLR sample_h) (ACR_CTS_CHG_ICLR sample_h)"
    by (simp add: two_bits_def sample_h_def)
  have s: "ctsn_flag (audio_state zeroed_aif) = 0"
    by (simp add: zeroed_aif_def)
  have x: "(0x400000 :: u32) AND ACR_CTS_CHG_ICLR sample_h \<noteq> 0
      \<and> (0x400000 :: u32) AND ACR_N_CHG_ICLR sample_h = 0
      \<and> (0x800000 :: u32) AND ACR_N_CHG_ICLR sample_h \<noteq> 0
      \<and> (0x800000 :: u32) AND ACR_CTS_CHG_ICLR sample_h = 0"
    by (simp add: sample_h_def)
  from isr_ctsn_debounce [OF b s, of "[]" "0x400000" "0x800000"] x b s
  show ?thesis by blast
qed

theorem tick_nudge_dead_band_witness:
  "nudge_outcome False False tracking_aif
     (rk628_csi_delayed_work_audio_v2 sample_h (sample_regs 0 272) tracking_aif)
   \<and> nudge_outcome False False tracking_aif
     (rk628_csi_delayed_work_audio sample_h (sample_regs 0 272) tracking_aif)
   \<and> nudge_outcome
        (sample_regs 0 272 HDMI_RX_AUD_FIFO_FILLSTS1 \<noteq> 0
           \<and> 16 < sint (sample_regs 0 272 HDMI_RX_AUD_FIFO_FILLSTS1)
                  - sint (init_state (audio_state tracking_aif))
           \<and> 0 < sint (sample_regs 0 272 HDMI_RX_AUD_FIFO_FILLSTS1)
                  - sint (pre_state (audio_state tracking_aif)))
        (sample_regs 0 272 HDMI_RX_AUD_FIFO_FILLSTS1 \<noteq> 0
           \<and> sint (sample_regs 0 272 HDMI_RX_AUD_FIFO_FILLSTS1)
                  - sint (init_state (audio_state tracking_aif)) < - 16
           \<and> sint (sample_regs 0 272 HDMI_RX_AUD_FIFO_FILLSTS1)
                  - sint (pre_state (audio_state tracking_aif)) < 0)
        tracking_aif
        (rk628_csi_delayed_work_audio_v2 sample_h (sample_regs 0 272) tracking_aif)"
proof -
  have v: "is_validfs (underscore_rk628_hdmirx_audio_fs (sample_regs 0 272))"
    by (simp add: sample_regs_fs is_validfs_iff)
  have st: "\<not> 1000 < sint (abs_int (underscore_rk628_hdmirx_audio_fs (sample_regs 0 272)
                      - fs_audio (audio_state tracking_aif)))"
    by (simp add: sample_regs_fs tracking_aif_def abs_int_def)
  have e: "sample_regs 0 272 HDMI_RX_AUD_FIFO_ISTS
             AND (AFIF_UNDERFL_ISTS sample_h OR AFIF_OVERFL_ISTS sample_h) = 0"
    "audio_enable (audio_state tracking_aif)"
    "\<bar>sint (sample_regs 0 272 HDMI_RX_AUD_FIFO_FILLSTS1)
        - sint (init_state (audio_state tracking_aif))\<bar> \<le> 16"
    "- 2147483648 \<le> sint (sample_regs 0 272 HDMI_RX_AUD_FIFO_FILLSTS1)
        - sint (init_state (audio_state tracking_aif))
     \<and> sint (sample_regs 0 272 HDMI_RX_AUD_FIFO_FILLSTS1)
        - sint (init_state (audio_state tracking_aif)) < 2147483648
     \<and> - 2147483648 \<le> sint (sample_regs 0 272 HDMI_RX_AUD_FIFO_FILLSTS1)
        - sint (pre_state (audio_state tracking_aif))
     \<and> sint (sample_regs 0 272 HDMI_RX_AUD_FIFO_FILLSTS1)
        - sint (pre_state (audio_state tracking_aif)) < 2147483648"
    by (simp_all add: tracking_aif_def)
  from tick_nudge_dead_band [OF v st, of sample_h] e show ?thesis by blast
qed

lemma isr_ctsn_fifo_side [simp]:
  "fifo_flag (audio_state (rk628_csi_isr_ctsn h x aif)) = fifo_flag (audio_state aif)"
  "fifo_int (audio_state (rk628_csi_isr_ctsn h x aif)) = fifo_int (audio_state aif)"
  "fifo_initd_calls (rk628_csi_isr_ctsn h x aif) = fifo_initd_calls aif"
  by (simp_all add: rk628_csi_isr_ctsn_def Let_def fifo_initd_calls_def)

lemma fifo_initd_calls_unchanged [simp]:
  "fifo_initd_calls (aif\<lparr>audio_state := st\<rparr>) = fifo_initd_calls aif"
  "fifo_initd_calls (aif\<lparr>fifo_ints_en := b\<rparr>) = fifo_initd_calls aif"
  "fifo_initd_calls (schedule_delayed_work_audio ms aif) = fifo_initd_calls aif"
  "fifo_initd_calls (rk628_i2c_write r v aif) = fifo_initd_calls aif"
  by (simp_all add: fifo_initd_calls_def)

lemma enable_fifo_initd_calls:
  "fifo_initd_calls (rk628_hdmirx_audio_enable h rd aif) =
     fifo_initd_calls aif + (if rd HDMI_RX_AUD_FIFO_ISTS AND 0x18 = 0x18 then 1 else 0)"
  by (simp add: rk628_hdmirx_audio_enable_def Let_def fifo_initd_calls_def INIT_FIFO_STATE_def)

lemma enable_audio_state:
  "audio_state (rk628_hdmirx_audio_enable h rd aif) =
     (if rd HDMI_RX_AUD_FIFO_ISTS AND 0x18 = 0
      then (audio_state aif)\<lparr>audio_enable := True\<rparr>
      else (audio_state aif)\<lparr>init_state := INIT_FIFO_STATE * 4,
             pre_state := INIT_FIFO_STATE * 4, audio_enable := True\<rparr>)"
  by (simp add: rk628_hdmirx_audio_enable_def Let_def)

section \<open>Runs of the driver\<close>

lemma setup_run_fields:
  "ctsn_ints_en (rk628_hdmirx_audio_setup h aif) = (\<not> rk628f aif)"
  "fifo_ints_en (rk628_hdmirx_audio_setup h aif) = False"
  "audio_scheduled_since aif (rk628_hdmirx_audio_setup h aif) = rk628f aif"
  "rate_change_scheduled_since aif (rk628_hdmirx_audio_setup h aif) = False"
  by (simp_all add: rk628_hdmirx_audio_setup_def rk628_hdmirx_audio_clk_set_rate_def Let_def
      audio_scheduled_since_def rate_change_scheduled_since_def)

lemma isr_ctsn_run_fields:
  "fifo_ints_en (rk628_csi_isr_ctsn h x aif) = fifo_ints_en aif"
  "audio_scheduled_since aif (rk628_csi_isr_ctsn h x aif) = False"
  "rate_change_scheduled_since aif (rk628_csi_isr_ctsn h x aif) =
     (ctsn_flag (audio_state (rk628_csi_isr_ctsn h x aif))
        = (ACR_N_CHG_ICLR h OR ACR_CTS_CHG_ICLR h))"
  by (simp_all add: rk628_csi_isr_ctsn_def Let_def
      audio_scheduled_since_def rate_change_scheduled_since_def)

lemma isr_fifoints_run_fields:
  "ctsn_ints_en (rk628_csi_isr_fifoints h x aif) = ctsn_ints_en aif"
  "ctsn_flag (audio_state (rk628_csi_isr_fifoints h x aif)) = ctsn_flag (audio_state aif)"
  by (simp_all add: rk628_csi_isr_fifoints_def Let_def)

lemma fifo_init_run_fields [simp]:
  "ctsn_ints_en (rk628_hdmirx_audio_fifo_init aif) = ctsn_ints_en aif"
  "ctsn_ints_en (rk628_hdmirx_audio_fifo_initd aif) = ctsn_ints_en aif"
  "ctsn_ints_en (rk628_hdmirx_audio_set_fs fs aif) = ctsn_ints_en aif"
  "ctsn_ints_en (rk628_hdmirx_audio_clk_inc_rate d aif) = ctsn_ints_en aif"
  by (simp_all add: rk628_hdmirx_audio_fifo_init_def rk628_hdmirx_audio_fifo_initd_def
      rk628_hdmirx_audio_set_fs_def rk628_hdmirx_audio_clk_inc_rate_def Let_def)

lemma enable_run_fields [simp]:
  "ctsn_ints_en (rk628_hdmirx_audio_enable h rd aif) = ctsn_ints_en aif"
  "ctsn_flag (audio_state (rk628_hdmirx_audio_enable h rd aif)) = ctsn_flag (audio_state aif)"
  "fifo_ints_en (rk628_hdmirx_audio_enable h rd aif)"
  by (simp_all add: rk628_hdmirx_audio_enable_def Let_def)

lemma v2_adjust_run_fields [simp]:
  "ctsn_ints_en (delayed_work_audio_v2_adjust h rd l i p d aif) = ctsn_ints_en aif"
  "ctsn_flag (audio_state (delayed_work_audio_v2_adjust h rd l i p d aif))
     = ctsn_flag (audio_state aif)"
  by (simp_all add: delayed_work_audio_v2_adjust_def Let_def)

lemma delayed_work_audio_run_fields:
  "ctsn_ints_en (delayed_work_audio h rd aif) = ctsn_ints_en aif"
  "ctsn_flag (audio_state (delayed_work_audio h rd aif)) = ctsn_flag (audio_state aif)"
  by (simp_all add: delayed_work_audio_def rk628_csi_delayed_work_audio_v2_def
      rk628_csi_delayed_work_audio_def Let_def)

lemma rate_change_run_fields:
  "ctsn_ints_en (rk628_csi_delayed_work_audio_rate_change h rd aif) = ctsn_ints_en aif"
  "ctsn_flag (audio_state (rk628_csi_delayed_work_audio_rate_change h rd aif)) =
     (if ctsn_flag (audio_state aif) = (ACR_N_CHG_ICLR h OR ACR_CTS_CHG_ICLR h) then 0
      else ctsn_flag (audio_state aif))"
  by (simp_all add: rk628_csi_delayed_work_audio_rate_change_def Let_def)

lemma driver_states_phase:
  assumes m: "ACR_N_CHG_ICLR h OR ACR_CTS_CHG_ICLR h \<noteq> 0"
    and s: "(aif, pa, pr) \<in> driver_states h"
  shows "run_phase h (aif, pa, pr)"
  using s
proof (induction rule: driver_states.induct)
  case (first_setup is_f en aif aif')
  then show ?case using m
    by (auto simp add: run_phase_def setup_run_fields setup_audio_state)
next
  case (setup_again aif aif')
  then show ?case using m
    by (auto simp add: run_phase_def setup_run_fields setup_audio_state)
next
  case (work_audio aif pr aif' rd)
  then show ?case
    by (auto simp add: run_phase_def delayed_work_audio_run_fields)
next
  case (work_rate_change aif pa aif' rd)
  then show ?case
    by (auto simp add: run_phase_def rate_change_run_fields)
next
  case (notify_ctsn aif pa pr aif' pdec_ints)
  then show ?case
    by (auto simp add: run_phase_def rk628_audio_ctsnints_enabled_def isr_ctsn_run_fields
        isr_ctsn_ints_en)
next
  case (notify_fifoints aif pa pr aif' fifo_ints)
  then show ?case
    by (auto simp add: run_phase_def rk628_audio_fifoints_enabled_def isr_fifoints_run_fields)
next
  case (cancel_work_audio aif pa pr)
  then show ?case by (auto simp add: run_phase_def)
next
  case (cancel_work_rate_change aif pa pr)
  then show ?case by (auto simp add: run_phase_def)
qed

lemma driver_states_no_ctsn_pending:
  assumes "ACR_N_CHG_ICLR h OR ACR_CTS_CHG_ICLR h \<noteq> 0"
    and "(aif, pa, pr) \<in> driver_states h"
    and "fifo_ints_en aif"
  shows "ctsn_flag (audio_state aif) \<noteq> (ACR_N_CHG_ICLR h OR ACR_CTS_CHG_ICLR h)"
  using driver_states_phase [OF assms(1,2)] assms(1,3) by (auto simp add: run_phase_def)

lemma rate_change_ctsn_ready:
  assumes "ctsn_flag (audio_state aif) = (ACR_N_CHG_ICLR h OR ACR_CTS_CHG_ICLR h)"
    and "is_validfs (underscore_rk628_hdmirx_audio_fs rd)"
    and "\<not> fifo_int (audio_state aif)"
  shows "rk628_csi_delayed_work_audio_rate_change h rd aif =
     schedule_delayed_work_audio 1000
       (rk628_hdmirx_audio_enable h rd
         (rk628_hdmirx_audio_set_fs (underscore_rk628_hdmirx_audio_fs rd)
           (aif\<lparr>audio_state := (audio_state aif)\<lparr>ctsn_flag := 0\<rparr>\<rparr>)))"
  using assms
  by (simp add: rk628_csi_delayed_work_audio_rate_change_def Let_def enable_audio_state)

text \<open>
  C5.  Starting from a state of the driver with no accumulated FIFO error flags, in which
  the FIFO notifications are delivered, a notification with only the overflow bit and then
  one with only the underflow bit cause exactly one resync dispatch (on the second call);
  the resync pass then invokes \<open>rk628_hdmirx_audio_fifo_initd\<close> exactly once, whatever
  the FIFO fill level reads, and leaves the flags and \<open>fifo_int\<close> cleared; a further
  notification with a single error bit dispatches nothing, and a further pass
  reinitialises nothing.  The status bits of each pair are any two bits without a common
  bit.
\<close>

theorem fifo_glitch_resync_once:
  fixes h :: hdmirx_h and aif :: rk628_audioinfo and x1 x2 x3 :: u32 and rd rd' :: i2c_regs
    and pa pr :: bool
  defines "s1 \<equiv> rk628_csi_isr_fifoints h x1 aif"
  defines "s2 \<equiv> rk628_csi_isr_fifoints h x2 s1"
  defines "s3 \<equiv> rk628_csi_delayed_work_audio_rate_change h rd s2"
  defines "s4 \<equiv> rk628_csi_isr_fifoints h x3 s3"
  assumes bits: "two_bits (AFIF_OVERFL_ISTS h) (AFIF_UNDERFL_ISTS h)"
    and ctsn_bits: "two_bits (ACR_N_CHG_ICLR h) (ACR_CTS_CHG_ICLR h)"
    and run: "(aif, pa, pr) \<in> driver_states h"
    and enabled: "rk628_audio_fifoints_enabled aif"
    and start: "fifo_flag (audio_state aif) = 0"
    and x1: "x1 AND AFIF_OVERFL_ISTS h \<noteq> 0" "x1 AND AFIF_UNDERFL_ISTS h = 0"
    and x2: "x2 AND AFIF_UNDERFL_ISTS h \<noteq> 0" "x2 AND AFIF_OVERFL_ISTS h = 0"
    and x3: "x3 AND AFIF_OVERFL_ISTS h = 0 \<or> x3 AND AFIF_UNDERFL_ISTS h = 0"
  shows "rate_change_dispatches s1 = rate_change_dispatches aif
     \<and> rate_change_dispatches s2 = rate_change_dispatches aif + 1
     \<and> fifo_flag (audio_state s2) = 0 \<and> fifo_int (audio_state s2)
     \<and> fifo_initd_calls s2 = fifo_initd_calls aif
     \<and> fifo_initd_calls s3 = fifo_initd_calls aif + 1
     \<and> rate_change_dispatches s3 = rate_change_dispatches aif + 1
     \<and> fifo_flag (audio_state s3) = 0 \<and> \<not> fifo_int (audio_state s3)
     \<and> rate_change_dispatches s4 = rate_change_dispatches s3
     \<and> \<not> fifo_int (audio_state s4)
     \<and> fifo_initd_calls s4 = fifo_initd_calls s3
     \<and> fifo_initd_calls (rk628_csi_delayed_work_audio_rate_change h rd' s4)
           = fifo_initd_calls s3"
proof -
  have "fifo_ints_en aif"
    using enabled by (simp add: rk628_audio_fifoints_enabled_def)
  then have "ctsn_flag (audio_state aif) \<noteq> (ACR_N_CHG_ICLR h OR ACR_CTS_CHG_ICLR h)"
    using driver_states_no_ctsn_pending [OF two_bits_facts(3) [OF ctsn_bits] run] by simp
  then show ?thesis
    unfolding s1_def s2_def s3_def s4_def
    by (rule fifo_glitch_scenario [OF bits start _ x1 x2 x3])
qed

theorem fifo_glitch_resync_once_witness:
  "fifo_initd_calls
     (rk628_csi_delayed_work_audio_rate_change sample_h (sample_regs 0 0)
       (rk628_csi_isr_fifoints sample_h 0x08
         (rk628_csi_isr_fifoints sample_h 0x10
           (rk628_csi_delayed_work_audio_rate_change sample_h (sample_regs 0 0)
             (rk628_csi_isr_ctsn sample_h 0xc00000
               (rk628_hdmirx_audio_setup sample_h zeroed_aif))))))
     = fifo_initd_calls
         (rk628_csi_delayed_work_audio_rate_change sample_h (sample_regs 0 0)
           (rk628_csi_isr_ctsn sample_h 0xc00000
             (rk628_hdmirx_audio_setup sample_h zeroed_aif))) + 1
   \<and> rate_change_dispatches
     (rk628_csi_isr_fifoints sample_h 0x08
       (rk628_csi_isr_fifoints sample_h 0x10
         (rk628_csi_delayed_work_audio_rate_change sample_h (sample_regs 0 0)
           (rk628_csi_isr_ctsn sample_h 0xc00000
             (rk628_hdmirx_audio_setup sample_h zeroed_aif)))))
     = rate_change_dispatches
         (rk628_csi_delayed_work_audio_rate_change sample_h (sample_regs 0 0)
           (rk628_csi_isr_ctsn sample_h 0xc00000
             (rk628_hdmirx_audio_setup sample_h zeroed_aif))) + 1"
proof -
  let ?a1 = "rk628_hdmirx_audio_setup sample_h zeroed_aif"
  let ?a2 = "rk628_csi_isr_ctsn sample_h 0xc00000 ?a1"
  let ?a3 = "rk628_csi_delayed_work_audio_rate_change sample_h (sample_regs 0 0) ?a2"
  have al: "rk628_hdmirx_audioinfo_alloc True False False = Some zeroed_aif"
    by (simp add: rk628_hdmirx_audioinfo_alloc_def zeroed_aif_def)
  have "(?a1, audio_scheduled_since zeroed_aif ?a1, rate_change_scheduled_since zeroed_aif ?a1)
      \<in> driver_states sample_h"
    by (rule driver_states.first_setup [OF al refl])
  then have m1: "(?a1, False, False) \<in> driver_states sample_h"
    by (simp add: setup_run_fields zeroed_aif_def)
  have e1: "rk628_audio_ctsnints_enabled ?a1"
    by (simp add: rk628_audio_ctsnints_enabled_def setup_run_fields zeroed_aif_def)
  have c2: "ctsn_flag (audio_state ?a2)
      = (ACR_N_CHG_ICLR sample_h OR ACR_CTS_CHG_ICLR sample_h)"
    by (simp add: isr_ctsn_flag setup_audio_state) (simp add: sample_h_def)
  have "(?a2, False \<or> audio_scheduled_since ?a1 ?a2, False \<or> rate_change_scheduled_since ?a1 ?a2)
      \<in> driver_states sample_h"
    by (rule driver_states.notify_ctsn [OF m1 e1 refl])
  then have m2: "(?a2, False, True) \<in> driver_states sample_h"
    using c2 by (simp add: isr_ctsn_run_fields)
  have m3: "(?a3, False \<or> audio_scheduled_since ?a2 ?a3, rate_change_scheduled_since ?a2 ?a3)
      \<in> driver_states sample_h"
    by (rule driver_states.work_rate_change [OF m2 refl])
  have v: "is_validfs (underscore_rk628_hdmirx_audio_fs (sample_regs 0 0))"
    by (simp add: sample_regs_fs is_validfs_iff)
  have i2: "\<not> fifo_int (audio_state ?a2)"
    by (simp add: setup_audio_state)
  note a3 = rate_change_ctsn_ready [OF c2 v i2]
  have en: "rk628_audio_fifoints_enabled ?a3"
    unfolding a3 by (simp add: rk628_audio_fifoints_enabled_def)
  have f3: "fifo_flag (audio_state ?a3) = 0"
    unfolding a3 by (simp add: enable_audio_state setup_audio_state zeroed_aif_def)
  have b: "two_bits (AFIF_OVERFL_ISTS sample_h) (AFIF_UNDERFL_ISTS sample_h)"
    "two_bits (ACR_N_CHG_ICLR sample_h) (ACR_CTS_CHG_ICLR sample_h)"
    by (simp_all add: two_bits_def sample_h_def)
  have x: "(0x10 :: u32) AND AFIF_OVERFL_ISTS sample_h \<noteq> 0"
    "(0x10 :: u32) AND AFIF_UNDERFL_ISTS sample_h = 0"
    "(0x08 :: u32) AND AFIF_UNDERFL_ISTS sample_h \<noteq> 0"
    "(0x08 :: u32) AND AFIF_OVERFL_ISTS sample_h = 0"
    "(0x10 :: u32) AND AFIF_OVERFL_ISTS sample_h = 0
       \<or> (0x10 :: u32) AND AFIF_UNDERFL_ISTS sample_h = 0"
    by (simp_all add: sample_h_def)
  from fifo_glitch_resync_once [OF b m3 en f3 x, of "sample_regs 0 0" "sample_regs 0 0"]
  show ?thesis by blast
qed

end
